theory Spec2Isabelle
  imports Complex_Main
begin

section \<open>Portal de becados: activation, route protection and hour-request workflow\<close>

text \<open>
  The server actions of the portal talk to two external stores through the Supabase
  client: the relational tables and the credential store (Supabase Auth). The model
  keeps both in one record \<open>mundo\<close>, threads it through every action, and lets a
  parameter of each action say how each awaited call of that action ends: it
  answers, it answers with an \<open>error\<close>, or it throws. The caller of a server action
  is the identity of its session cookies (\<open>sesion\<close>), \<open>None\<close> when it has none.

  A string is a list of UTF-16 code units below 256 (the Latin-1 range: a \<open>char\<close> has
  eight bits). The host functions below are exact on such strings; a string with a
  code unit beyond that range has no counterpart here. User-visible messages are the
  source's strings, with accented letters typed without the accent.
  Row-level-security policies live in the database, outside the repository: a table
  answers every query of the client.
\<close>

subsection \<open>Strings and numbers of the host language\<close>

definition startsWith :: "string \<Rightarrow> string \<Rightarrow> bool" where
  "startsWith s p = (take (length p) s = p)"

fun includes_str :: "string \<Rightarrow> string \<Rightarrow> bool" where
  "includes_str [] sub = (sub = [])"
| "includes_str (c # cs) sub = (if startsWith (c # cs) sub then True else includes_str cs sub)"

text \<open>
  \<open>String.prototype.trim\<close> removes white space and line terminators at both ends. Of
  the code units below 256 these are 9 to 13 (tab, line feed, vertical tab, form feed,
  carriage return), 32 (space) and 160 (no-break space).
\<close>

definition es_espacio :: "char \<Rightarrow> bool" where
  "es_espacio c = (of_char c \<in> {9, 10, 11, 12, 13, 32, 160 :: nat})"

definition trim :: "string \<Rightarrow> string" where
  "trim s = rev (dropWhile es_espacio (rev (dropWhile es_espacio s)))"

definition es_mayuscula :: "char \<Rightarrow> bool" where
  "es_mayuscula c = (65 \<le> (of_char c :: nat) \<and> (of_char c :: nat) \<le> 90)"

definition es_minuscula :: "char \<Rightarrow> bool" where
  "es_minuscula c = (97 \<le> (of_char c :: nat) \<and> (of_char c :: nat) \<le> 122)"

definition es_digito :: "char \<Rightarrow> bool" where
  "es_digito c = (48 \<le> (of_char c :: nat) \<and> (of_char c :: nat) \<le> 57)"

text \<open>
  \<open>String.prototype.toLowerCase\<close>: of the code units below 256, the letters with a
  lower-case form are \<open>A\<close> to \<open>Z\<close> and 192 to 222 without 215 (the multiplication sign),
  and the lower-case form is 32 further.
\<close>

definition tiene_minuscula :: "char \<Rightarrow> bool" where
  "tiene_minuscula c =
     (es_mayuscula c
      \<or> (192 \<le> (of_char c :: nat) \<and> (of_char c :: nat) \<le> 222 \<and> (of_char c :: nat) \<noteq> 215))"

definition toLowerCase :: "string \<Rightarrow> string" where
  "toLowerCase s = map (\<lambda>c. if tiene_minuscula c then char_of (of_char c + (32 :: nat)) else c) s"

text \<open>
  A value that may be \<open>null\<close> is an \<open>option\<close>. \<open>falsy\<close> is the test \<open>!x\<close> on a nullable
  string: \<open>null\<close> and the empty string are both falsy.
\<close>

definition falsy :: "string option \<Rightarrow> bool" where
  "falsy x = (case x of None \<Rightarrow> True | Some s \<Rightarrow> s = [])"

text \<open>\<open>a || b\<close> on a nullable string with a string default.\<close>

definition o_bien :: "string option \<Rightarrow> string \<Rightarrow> string" where
  "o_bien x d = (case x of None \<Rightarrow> d | Some s \<Rightarrow> if s = [] then d else s)"

text \<open>
  A \<open>number\<close>: the finite doubles are rationals; \<open>NaN\<close> and the two infinities are
  apart. \<open>menor_igual_cero\<close> is \<open>x <= 0\<close>, false on \<open>NaN\<close>.
\<close>

datatype numero = NaN | Finito rat | MasInfinito | MenosInfinito

fun isNaN :: "numero \<Rightarrow> bool" where
  "isNaN NaN = True"
| "isNaN (Finito q) = False"
| "isNaN MasInfinito = False"
| "isNaN MenosInfinito = False"

fun menor_igual_cero :: "numero \<Rightarrow> bool" where
  "menor_igual_cero NaN = False"
| "menor_igual_cero (Finito q) = (q \<le> 0)"
| "menor_igual_cero MasInfinito = False"
| "menor_igual_cero MenosInfinito = True"

text \<open>
  \<open>JSON.stringify\<close> of a number, as the client writes it into the body of a request:
  a number that is not finite is written \<open>null\<close>.
\<close>

fun json_numero :: "numero \<Rightarrow> rat option" where
  "json_numero NaN = None"
| "json_numero (Finito q) = Some q"
| "json_numero MasInfinito = None"
| "json_numero MenosInfinito = None"

subsection \<open>Answers of the Supabase client\<close>

record pg_error =
  pg_code :: string
  pg_message :: string

text \<open>
  How one awaited call ends, given from outside: \<open>Ninguno\<close> (the store answers
  from its contents), \<open>Devuelve e\<close> (it resolves with \<open>error = e\<close> and changes nothing)
  or \<open>Lanza m\<close> (the call throws an \<open>Error\<close> with message \<open>m\<close> and changes nothing).
\<close>

datatype incidente = Ninguno | Devuelve pg_error | Lanza string

text \<open>The resolved \<open>{ data, error }\<close> of a call, or the exception it threw.\<close>

datatype 'a respuesta = Respuesta "'a option" "pg_error option" | Excepcion string

definition PGRST116 :: pg_error where
  "PGRST116 = \<lparr>pg_code = ''PGRST116'', pg_message = ''JSON object requested, multiple (or no) rows returned''\<rparr>"

text \<open>\<open>.single()\<close>: exactly one row, anything else is an error.\<close>

definition single :: "incidente \<Rightarrow> 'a list \<Rightarrow> 'a respuesta" where
  "single inc filas =
     (case inc of
        Lanza m \<Rightarrow> Excepcion m
      | Devuelve e \<Rightarrow> Respuesta None (Some e)
      | Ninguno \<Rightarrow>
          (case filas of
             [] \<Rightarrow> Respuesta None (Some PGRST116)
           | f # resto \<Rightarrow> if resto = [] then Respuesta (Some f) None else Respuesta None (Some PGRST116)))"

text \<open>\<open>.maybeSingle()\<close>: no row is \<open>data = null\<close> without error; several rows are an error.\<close>

definition maybeSingle :: "incidente \<Rightarrow> 'a list \<Rightarrow> 'a respuesta" where
  "maybeSingle inc filas =
     (case inc of
        Lanza m \<Rightarrow> Excepcion m
      | Devuelve e \<Rightarrow> Respuesta None (Some e)
      | Ninguno \<Rightarrow>
          (case filas of
             [] \<Rightarrow> Respuesta None None
           | f # resto \<Rightarrow> if resto = [] then Respuesta (Some f) None else Respuesta None (Some PGRST116)))"

text \<open>
  \<open>.update(cambio).eq(...)\<close>: every row that satisfies the filter is changed. The
  answer carries the changed rows, which the caller sees only when it chained
  \<open>.select()\<close>. Zero matching rows is not an error.
\<close>

definition update_donde ::
  "incidente \<Rightarrow> ('a \<Rightarrow> bool) \<Rightarrow> ('a \<Rightarrow> 'a) \<Rightarrow> 'a list \<Rightarrow> ('a list) respuesta \<times> 'a list" where
  "update_donde inc filtro cambio filas =
     (case inc of
        Lanza m \<Rightarrow> (Excepcion m, filas)
      | Devuelve e \<Rightarrow> (Respuesta None (Some e), filas)
      | Ninguno \<Rightarrow>
          (Respuesta (Some (map cambio (filter filtro filas))) None,
           map (\<lambda>f. if filtro f then cambio f else f) filas))"

text \<open>
  \<open>.insert(fila)\<close>: the row is appended as it reaches the table. The client sends it as
  JSON, so \<open>fila\<close> is what the body of the request says.
\<close>

definition insert_fila :: "incidente \<Rightarrow> 'a \<Rightarrow> 'a list \<Rightarrow> unit respuesta \<times> 'a list" where
  "insert_fila inc fila filas =
     (case inc of
        Lanza m \<Rightarrow> (Excepcion m, filas)
      | Devuelve e \<Rightarrow> (Respuesta None (Some e), filas)
      | Ninguno \<Rightarrow> (Respuesta None None, filas @ [fila]))"

subsection \<open>Tables and the credential store\<close>

text \<open>The columns of \<open>estudiantes\<close> that the modelled actions read or write.\<close>

record estudiante =
  est_id :: string
  id_becado_interno :: "string option"
  nombre_completo_becado :: "string option"
  correo_personal :: "string option"
  ha_completado_onboarding :: bool
  onboarding_token :: "string option"
  auth_user_id :: "string option"
  fecha_de_nacimiento :: "string option"
  telefono_llamada :: "string option"
  telefono_whatsapp :: "string option"
  id_becado_universidad :: "string option"
  correo_estudiantil :: "string option"
  departamento :: "string option"
  municipio :: "string option"
  distrito :: "string option"
  nombre_emergencia :: "string option"
  telefono_emergencia :: "string option"
  parentesco_emergencia :: "string option"
  tiene_una_discapacidad :: "bool option"
  detalle_discapacidad :: "string option"
  miembro_de_consejo :: "bool option"
  becado_elite :: "bool option"
  url_carnet_digital :: "string option"
  url_expediente_digital :: "string option"

record admin_fila =
  ua_id :: string
  ua_auth_user_id :: string

record solicitud =
  sol_id :: string
  estudiante_id :: string
  fecha_actividad :: string
  nombre_actividad :: string
  cantidad_horas :: numero
  responsable_encargado :: "string option"
  estado :: string

record hora_voluntariado =
  hv_id_becado_interno :: string
  hv_nombre_completo_becado :: string
  hv_fecha_actividad :: string
  hv_nombre_actividad :: string
  hv_cantidad_horas :: "rat option"
  hv_responsable_encargado :: string
  hv_estado :: string

record auth_user =
  au_id :: string
  au_email :: string
  au_password :: string

record mundo =
  estudiantes :: "estudiante list"
  usuarios_administrativos :: "admin_fila list"
  solicitudes_horas :: "solicitud list"
  horas_voluntariados :: "hora_voluntariado list"
  auth_usuarios :: "auth_user list"

text \<open>The uniform result of a server action.\<close>

record resultado =
  success :: bool
  message :: string

text \<open>
  How a call of an action ends: it returns its value, it leaves through
  \<open>redirect(url)\<close>, or an exception escapes it.
\<close>

datatype 'a salida = Retorna 'a | Redirige string | Propaga string

text \<open>
  The role lookup that the middleware and the guarded actions repeat:
  \<open>from('usuarios_administrativos').select('id').eq('auth_user_id', uid).maybeSingle()\<close>.
  A caller is an administrator when the answer has no error and \<open>data\<close> is not null.
\<close>

definition consulta_admin :: "incidente \<Rightarrow> string \<Rightarrow> mundo \<Rightarrow> admin_fila respuesta" where
  "consulta_admin inc uid w =
     maybeSingle inc (filter (\<lambda>a. ua_auth_user_id a = uid) (usuarios_administrativos w))"

text \<open>\<open>auth.getUser()\<close> of a client made from the cookies of the caller \<open>sesion\<close>.\<close>

definition getUser :: "incidente \<Rightarrow> string option \<Rightarrow> string respuesta" where
  "getUser inc sesion =
     (case inc of
        Lanza m \<Rightarrow> Excepcion m
      | Devuelve e \<Rightarrow> Respuesta None (Some e)
      | Ninguno \<Rightarrow> Respuesta sesion None)"

subsection \<open>Token validation (\<open>validarToken\<close>)\<close>

record validacion = resultado +
  estudiante_v :: "(string \<times> string) option"

text \<open>
  \<open>estudiante_v\<close> is the pair \<open>(nombre_completo_becado, correo_personal)\<close> shown in the
  activation form. A successful validation carries no message (the empty string here).
\<close>

definition token_invalido :: validacion where
  "token_invalido =
     \<lparr>success = False, message = ''Token invalido o no encontrado'', estudiante_v = None\<rparr>"

definition token_utilizado :: validacion where
  "token_utilizado =
     \<lparr>success = False, message = ''Este token ya ha sido utilizado'', estudiante_v = None\<rparr>"

definition faltan_datos :: validacion where
  "faltan_datos =
     \<lparr>success = False, message = ''Faltan datos requeridos en el registro del estudiante'',
      estudiante_v = None\<rparr>"

definition validarToken :: "incidente \<Rightarrow> string \<Rightarrow> mundo \<Rightarrow> validacion salida" where
  "validarToken inc token w =
     (case single inc (filter (\<lambda>e. onboarding_token e = Some token) (estudiantes w)) of
        Excepcion m \<Rightarrow> Propaga m
      | Respuesta data (Some error) \<Rightarrow> Retorna token_invalido
      | Respuesta None None \<Rightarrow> Retorna token_invalido
      | Respuesta (Some fila) None \<Rightarrow>
          if ha_completado_onboarding fila then Retorna token_utilizado
          else if falsy (nombre_completo_becado fila) \<or> falsy (correo_personal fila) then
            Retorna faltan_datos
          else
            Retorna \<lparr>success = True, message = [],
              estudiante_v = Some (o_bien (nombre_completo_becado fila) [],
                                   o_bien (correo_personal fila) [])\<rparr>)"

subsection \<open>Account activation (\<open>activarCuenta\<close>)\<close>

text \<open>The issues of \<open>passwordSchema.safeParse\<close>, in the order of the schema's checks.\<close>

definition passwordSchema :: "string \<Rightarrow> string list" where
  "passwordSchema password =
     (if length password < 8 then [''La contrasena debe tener al menos 8 caracteres''] else []) @
     (if list_ex es_mayuscula password then [] else [''La contrasena debe contener al menos una letra mayuscula'']) @
     (if list_ex es_minuscula password then [] else [''La contrasena debe contener al menos una letra minuscula'']) @
     (if list_ex es_digito password then [] else [''La contrasena debe contener al menos un numero''])"

text \<open>
  \<open>auth.admin.createUser\<close> and \<open>auth.admin.deleteUser\<close> of the credential store. The
  store chooses the id of a new identity (\<open>nuevo_id\<close>); a refusal of the store (the
  e-mail is in use, the user is unknown) is an incident.
\<close>

definition createUser ::
  "incidente \<Rightarrow> string \<Rightarrow> string \<Rightarrow> string \<Rightarrow> auth_user list \<Rightarrow> auth_user respuesta \<times> auth_user list" where
  "createUser inc nuevo_id email password usuarios =
     (case inc of
        Lanza m \<Rightarrow> (Excepcion m, usuarios)
      | Devuelve e \<Rightarrow> (Respuesta None (Some e), usuarios)
      | Ninguno \<Rightarrow>
          (Respuesta (Some \<lparr>au_id = nuevo_id, au_email = email, au_password = password\<rparr>) None,
           usuarios @ [\<lparr>au_id = nuevo_id, au_email = email, au_password = password\<rparr>]))"

definition deleteUser :: "incidente \<Rightarrow> string \<Rightarrow> auth_user list \<Rightarrow> unit respuesta \<times> auth_user list" where
  "deleteUser inc uid usuarios =
     (case inc of
        Lanza m \<Rightarrow> (Excepcion m, usuarios)
      | Devuelve e \<Rightarrow> (Respuesta None (Some e), usuarios)
      | Ninguno \<Rightarrow> (Respuesta None None, filter (\<lambda>u. au_id u \<noteq> uid) usuarios))"

text \<open>
  The awaited calls of one activation. \<open>ea_interferencia\<close> is what other requests do
  to the stores while this one is suspended between the validation of Paso 0 and the
  creation of the identity in Paso 1: the identity function when the request runs alone.
  \<open>ea_signIn\<close> covers \<open>createClient()\<close> and \<open>signInWithPassword\<close>.
\<close>

record env_activar =
  ea_validarToken :: incidente
  ea_interferencia :: "mundo \<Rightarrow> mundo"
  ea_createUser :: incidente
  ea_nuevo_id :: string
  ea_update :: incidente
  ea_deleteUser :: incidente
  ea_signIn :: incidente
  ea_admin :: incidente

definition login_cuenta_creada :: string where
  "login_cuenta_creada = ''/login?error=Cuenta%20creada.%20Por%20favor%2C%20inicia%20sesi%C3%B3n.''"

definition error_inesperado :: resultado where
  "error_inesperado = \<lparr>success = False, message = ''Error inesperado. Por favor, intenta nuevamente.''\<rparr>"

text \<open>
  Paso 3, reached with \<open>tokenQuemado = true\<close>: an exception or a failed sign-in sends
  the caller to the login page, otherwise to the dashboard of its role.
\<close>

definition activarCuenta_paso3 :: "env_activar \<Rightarrow> auth_user \<Rightarrow> mundo \<Rightarrow> resultado salida \<times> mundo" where
  "activarCuenta_paso3 env user w =
     (case ea_signIn env of
        Lanza m \<Rightarrow> (Redirige login_cuenta_creada, w)
      | Devuelve signInError \<Rightarrow> (Redirige login_cuenta_creada, w)
      | Ninguno \<Rightarrow>
          (case consulta_admin (ea_admin env) (au_id user) w of
             Excepcion m \<Rightarrow> (Redirige login_cuenta_creada, w)
           | Respuesta adminData adminError \<Rightarrow>
               if adminError = None \<and> adminData \<noteq> None then (Redirige ''/admin/dashboard'', w)
               else (Redirige ''/dashboard'', w)))"

text \<open>
  Paso 2: the conditional update keyed on the token, which burns it. Only the
  \<open>error\<close> of the answer is read. The welcome e-mail of Paso 2.5 sits in a
  \<open>try\<close>/\<open>catch\<close> of its own and changes neither the stores nor the outcome.
\<close>

definition activarCuenta_paso2 ::
  "env_activar \<Rightarrow> string \<Rightarrow> string \<Rightarrow> auth_user \<Rightarrow> mundo \<Rightarrow> resultado salida \<times> mundo" where
  "activarCuenta_paso2 env token email user w =
     (case update_donde (ea_update env) (\<lambda>e. onboarding_token e = Some token)
             (\<lambda>e. e\<lparr>auth_user_id := Some (au_id user),
                     correo_personal := Some (toLowerCase (trim email)),
                     ha_completado_onboarding := True,
                     onboarding_token := None\<rparr>)
             (estudiantes w) of
        (Excepcion m, filas) \<Rightarrow> (Retorna error_inesperado, w)
      | (Respuesta datos (Some updateError), filas) \<Rightarrow>
          if au_id user = [] then
            (Retorna \<lparr>success = False,
               message = ''Error al vincular la cuenta. Por favor, intenta nuevamente.''\<rparr>, w)
          else
            (case deleteUser (ea_deleteUser env) (au_id user) (auth_usuarios w) of
               (Excepcion m, usuarios) \<Rightarrow> (Retorna error_inesperado, w)
             | (Respuesta d e, usuarios) \<Rightarrow>
                 (Retorna \<lparr>success = False,
                    message = ''Error al vincular la cuenta. Por favor, intenta nuevamente.''\<rparr>,
                  w\<lparr>auth_usuarios := usuarios\<rparr>))
      | (Respuesta datos None, filas) \<Rightarrow> activarCuenta_paso3 env user (w\<lparr>estudiantes := filas\<rparr>))"

text \<open>Paso 1: the identity is created in the credential store.\<close>

definition activarCuenta_paso1 ::
  "env_activar \<Rightarrow> string \<Rightarrow> string \<Rightarrow> string \<Rightarrow> mundo \<Rightarrow> resultado salida \<times> mundo" where
  "activarCuenta_paso1 env token email password w =
     (case createUser (ea_createUser env) (ea_nuevo_id env) (toLowerCase (trim email)) password
             (auth_usuarios w) of
        (Excepcion m, usuarios) \<Rightarrow> (Retorna error_inesperado, w)
      | (Respuesta authUser createUserError, usuarios) \<Rightarrow>
          (case createUserError of
             Some e \<Rightarrow>
               (Retorna \<lparr>success = False,
                  message = o_bien (Some (pg_message e))
                    ''Error al crear la cuenta. El correo podria estar en uso.''\<rparr>,
                w\<lparr>auth_usuarios := usuarios\<rparr>)
           | None \<Rightarrow>
               (case authUser of
                  None \<Rightarrow>
                    (Retorna \<lparr>success = False,
                       message = ''Error al crear la cuenta. El correo podria estar en uso.''\<rparr>,
                     w\<lparr>auth_usuarios := usuarios\<rparr>)
                | Some user \<Rightarrow> activarCuenta_paso2 env token email user (w\<lparr>auth_usuarios := usuarios\<rparr>))))"

definition activarCuenta ::
  "env_activar \<Rightarrow> string \<Rightarrow> string \<Rightarrow> string \<Rightarrow> mundo \<Rightarrow> resultado salida \<times> mundo" where
  "activarCuenta env token email password w =
     (case validarToken (ea_validarToken env) token w of
        Propaga m \<Rightarrow> (Propaga m, w)
      | Redirige url \<Rightarrow> (Redirige url, w)
      | Retorna validacion \<Rightarrow>
          if \<not> success validacion then
            (Retorna \<lparr>success = False,
               message = o_bien (Some (message validacion)) ''Error al validar el token''\<rparr>, w)
          else
            (case passwordSchema password of
               issue # issues \<Rightarrow> (Retorna \<lparr>success = False, message = issue\<rparr>, w)
             | [] \<Rightarrow> activarCuenta_paso1 env token email password (ea_interferencia env w)))"

text \<open>An activation whose calls all answer from the stores and that runs alone.\<close>

definition sin_incidentes_activar :: "string \<Rightarrow> env_activar" where
  "sin_incidentes_activar nuevo_id =
     \<lparr>ea_validarToken = Ninguno, ea_interferencia = (\<lambda>w. w), ea_createUser = Ninguno,
      ea_nuevo_id = nuevo_id, ea_update = Ninguno, ea_deleteUser = Ninguno, ea_signIn = Ninguno,
      ea_admin = Ninguno\<rparr>"

subsection \<open>Hour requests (\<open>rechazarSolicitud\<close>, \<open>aprobarSolicitud\<close>)\<close>

text \<open>
  Both actions create their client from the caller's cookies (\<open>sesion\<close>) and never
  ask who the caller is. An exception of \<open>createClient()\<close> counts with the first query.
\<close>

definition id_invalido :: resultado where
  "id_invalido = \<lparr>success = False, message = ''ID de solicitud invalido.''\<rparr>"

definition rechazada :: resultado where
  "rechazada = \<lparr>success = True, message = ''Solicitud rechazada correctamente.''\<rparr>"

definition rechazarSolicitud :: "incidente \<Rightarrow> string option \<Rightarrow> string \<Rightarrow> mundo \<Rightarrow> resultado \<times> mundo" where
  "rechazarSolicitud inc sesion solicitudId w =
     (if solicitudId = [] \<or> solicitudId = ''undefined'' then (id_invalido, w)
      else
        (case update_donde inc (\<lambda>s. sol_id s = solicitudId) (\<lambda>s. s\<lparr>estado := ''rechazado''\<rparr>)
                (solicitudes_horas w) of
           (Excepcion m, filas) \<Rightarrow> (error_inesperado, w)
         | (Respuesta datos (Some error), filas) \<Rightarrow>
             (\<lparr>success = False,
               message = ''Error al rechazar la solicitud. Por favor, intenta nuevamente.''\<rparr>, w)
         | (Respuesta datos None, filas) \<Rightarrow>
             (rechazada, w\<lparr>solicitudes_horas := filas\<rparr>)))"

record env_aprobar =
  aa_solicitud :: incidente
  aa_estudiante :: incidente
  aa_insert :: incidente
  aa_update :: incidente

text \<open>Every call of an approval answers from the stores.\<close>

definition sin_incidentes_aprobar :: env_aprobar where
  "sin_incidentes_aprobar =
     \<lparr>aa_solicitud = Ninguno, aa_estudiante = Ninguno, aa_insert = Ninguno, aa_update = Ninguno\<rparr>"

definition ya_procesada :: resultado where
  "ya_procesada = \<lparr>success = False, message = ''Esta solicitud ya ha sido procesada.''\<rparr>"

definition aprobada :: resultado where
  "aprobada = \<lparr>success = True, message = ''Solicitud aprobada y horas registradas correctamente.''\<rparr>"

definition horas_invalidas :: resultado where
  "horas_invalidas = \<lparr>success = False, message = ''La cantidad de horas debe ser un numero mayor a 0.''\<rparr>"

text \<open>
  The object \<open>horasData\<close> as it reaches the table: the insert sends it as JSON, so
  \<open>cantidad_horas\<close> arrives as \<open>json_numero\<close> writes it.
\<close>

definition horasData :: "solicitud \<Rightarrow> string \<Rightarrow> string \<Rightarrow> numero \<Rightarrow> hora_voluntariado" where
  "horasData sol id_interno nombre cantidadHorasFinal =
     \<lparr>hv_id_becado_interno = id_interno,
      hv_nombre_completo_becado = nombre,
      hv_fecha_actividad = fecha_actividad sol,
      hv_nombre_actividad = nombre_actividad sol,
      hv_cantidad_horas = json_numero cantidadHorasFinal,
      hv_responsable_encargado = o_bien (responsable_encargado sol) ''N/A'',
      hv_estado = ''validado''\<rparr>"

text \<open>Pasos 3 and 4: the ledger row is inserted, then the request is marked approved.\<close>

definition aprobarSolicitud_paso3 ::
  "env_aprobar \<Rightarrow> string \<Rightarrow> hora_voluntariado \<Rightarrow> mundo \<Rightarrow> resultado \<times> mundo" where
  "aprobarSolicitud_paso3 env solicitudId fila w =
     (case insert_fila (aa_insert env) fila (horas_voluntariados w) of
        (Excepcion m, horas) \<Rightarrow> (error_inesperado, w)
      | (Respuesta d (Some insertError), horas) \<Rightarrow>
          (\<lparr>success = False,
            message = ''Error al registrar las horas de voluntariado. Por favor, intenta nuevamente.''\<rparr>, w)
      | (Respuesta d None, horas) \<Rightarrow>
          (case update_donde (aa_update env) (\<lambda>s. sol_id s = solicitudId)
                  (\<lambda>s. s\<lparr>estado := ''aprobado''\<rparr>) (solicitudes_horas w) of
             (Excepcion m, filas) \<Rightarrow> (error_inesperado, w\<lparr>horas_voluntariados := horas\<rparr>)
           | (Respuesta datos (Some updateError), filas) \<Rightarrow>
               (\<lparr>success = False,
                 message = ''Las horas se registraron, pero hubo un error al actualizar el estado de la solicitud.''\<rparr>,
                w\<lparr>horas_voluntariados := horas\<rparr>)
           | (Respuesta datos None, filas) \<Rightarrow>
               (aprobada, w\<lparr>horas_voluntariados := horas, solicitudes_horas := filas\<rparr>)))"

text \<open>Paso 2: the student's internal id and name, and the hours to credit.\<close>

definition aprobarSolicitud_paso2 ::
  "env_aprobar \<Rightarrow> string \<Rightarrow> numero option \<Rightarrow> solicitud \<Rightarrow> mundo \<Rightarrow> resultado \<times> mundo" where
  "aprobarSolicitud_paso2 env solicitudId horasAprobadas sol w =
     (case single (aa_estudiante env) (filter (\<lambda>e. est_id e = estudiante_id sol) (estudiantes w)) of
        Excepcion m \<Rightarrow> (error_inesperado, w)
      | Respuesta estudiante (Some estudianteError) \<Rightarrow>
          (\<lparr>success = False,
            message = ''No se pudo encontrar el estudiante asociado a esta solicitud.''\<rparr>, w)
      | Respuesta None None \<Rightarrow>
          (\<lparr>success = False,
            message = ''No se pudo encontrar el estudiante asociado a esta solicitud.''\<rparr>, w)
      | Respuesta (Some est) None \<Rightarrow>
          if falsy (id_becado_interno est) then
            (\<lparr>success = False,
              message = ''El estudiante no tiene un ID de becado interno asignado.''\<rparr>, w)
          else if falsy (nombre_completo_becado est) then
            (\<lparr>success = False, message = ''El estudiante no tiene un nombre completo asignado.''\<rparr>, w)
          else if trim (o_bien (nombre_completo_becado est) []) = [] then
            (\<lparr>success = False, message = ''El estudiante no tiene un nombre completo asignado.''\<rparr>, w)
          else
            (let cantidadHorasFinal =
                   (case horasAprobadas of Some h \<Rightarrow> h | None \<Rightarrow> cantidad_horas sol)
             in if isNaN cantidadHorasFinal then (horas_invalidas, w)
                else if menor_igual_cero cantidadHorasFinal then (horas_invalidas, w)
                else aprobarSolicitud_paso3 env solicitudId
                       (horasData sol (o_bien (id_becado_interno est) [])
                          (o_bien (nombre_completo_becado est) []) cantidadHorasFinal) w))"

definition aprobarSolicitud ::
  "env_aprobar \<Rightarrow> string option \<Rightarrow> string \<Rightarrow> numero option \<Rightarrow> mundo \<Rightarrow> resultado \<times> mundo" where
  "aprobarSolicitud env sesion solicitudId horasAprobadas w =
     (if solicitudId = [] \<or> solicitudId = ''undefined'' then (id_invalido, w)
      else
        (case single (aa_solicitud env) (filter (\<lambda>s. sol_id s = solicitudId) (solicitudes_horas w)) of
           Excepcion m \<Rightarrow> (error_inesperado, w)
         | Respuesta solicitud (Some solicitudError) \<Rightarrow>
             (\<lparr>success = False, message = ''No se pudo encontrar la solicitud.''\<rparr>, w)
         | Respuesta None None \<Rightarrow>
             (\<lparr>success = False, message = ''No se pudo encontrar la solicitud.''\<rparr>, w)
         | Respuesta (Some sol) None \<Rightarrow>
             if estado sol = ''aprobado'' \<or> estado sol = ''rechazado'' then (ya_procesada, w)
             else aprobarSolicitud_paso2 env solicitudId horasAprobadas sol w))"

subsection \<open>Student administration (\<open>resetearPerfilEstudiante\<close>, \<open>desvincularCuentaEstudiante\<close>)\<close>

definition sin_usuario :: resultado where
  "sin_usuario =
     \<lparr>success = False, message = ''No hay usuario autenticado. Por favor, inicia sesion nuevamente.''\<rparr>"

definition estudiante_no_encontrado :: resultado where
  "estudiante_no_encontrado =
     \<lparr>success = False, message = ''No se pudo encontrar el estudiante especificado.''\<rparr>"

definition registro_no_encontrado :: resultado where
  "registro_no_encontrado =
     \<lparr>success = False,
      message = ''Error: No se encontro el registro del estudiante. Por favor, verifica el ID.''\<rparr>"

definition error_inesperado_con :: "string \<Rightarrow> resultado" where
  "error_inesperado_con errorMessage =
     \<lparr>success = False,
      message = ''Error inesperado: '' @ errorMessage @ ''. Por favor, intenta nuevamente.''\<rparr>"

text \<open>
  The message for a failed update of \<open>estudiantes\<close>: both actions classify the error
  the same way and differ in two wordings, \<open>que\<close> and \<open>prefijo\<close>.
\<close>

definition mensaje_updateError :: "string \<Rightarrow> string \<Rightarrow> pg_error \<Rightarrow> string" where
  "mensaje_updateError que prefijo updateError =
     (if pg_code updateError = ''PGRST202'' \<or> includes_str (pg_message updateError) ''column''
           \<or> includes_str (pg_message updateError) ''does not exist'' then
        ''Error: Una o mas columnas no existen en la base de datos. Por favor, contacta al administrador del sistema. Detalles: ''
          @ pg_message updateError
      else if pg_code updateError = ''PGRST301'' \<or> includes_str (pg_message updateError) ''permission''
           \<or> includes_str (pg_message updateError) ''policy'' then
        ''Error de permisos: No tienes permiso para actualizar este '' @ que
          @ ''. Por favor, contacta al administrador.''
      else
        prefijo @ o_bien (Some (pg_message updateError)) ''Error desconocido''
          @ ''. Por favor, intenta nuevamente.'')"

text \<open>
  The filter string that both actions hand to \<open>.or(...)\<close>: the id is interpolated as it
  is, unquoted.
\<close>

definition filtro_or :: "string \<Rightarrow> string" where
  "filtro_or estudianteId = ''id.eq.'' @ estudianteId @ '',id_becado_interno.eq.'' @ estudianteId"

text \<open>
  Which rows such a string selects is decided by the filter grammar of the database
  server (PostgREST), which is not part of the repository: the reading is a parameter
  of each action (\<open>er_or\<close>, \<open>ed_or\<close>), a predicate on rows for every filter string.

  \<open>or_por_comas\<close> is the reading of the server for the strings without quotes and
  parentheses: the conditions are the pieces between the commas, a piece \<open>col.eq.v\<close>
  holds of the rows whose column \<open>col\<close>, written as text, is \<open>v\<close>, and a row is selected
  when one of the pieces holds of it. So an id with a comma in it gives more than the two
  conditions the action meant. A piece of another form, or a value that its column
  cannot take, makes the server answer with an error: that is the incident of the
  lookup (\<open>er_estudiante\<close>, \<open>ed_estudiante\<close>).
\<close>

fun separa_comas :: "string \<Rightarrow> string list" where
  "separa_comas [] = [[]]"
| "separa_comas (c # cs) =
     (if c = CHR '','' then [] # separa_comas cs
      else (case separa_comas cs of [] \<Rightarrow> [[c]] | p # ps \<Rightarrow> (c # p) # ps))"

definition condicion :: "string \<Rightarrow> estudiante \<Rightarrow> bool" where
  "condicion c e =
     (if startsWith c ''id.eq.'' then est_id e = drop 6 c
      else if startsWith c ''id_becado_interno.eq.'' then id_becado_interno e = Some (drop 21 c)
      else False)"

definition or_por_comas :: "string \<Rightarrow> estudiante \<Rightarrow> bool" where
  "or_por_comas filtro e = list_ex (\<lambda>c. condicion c e) (separa_comas filtro)"

text \<open>The name shown in a success message: \<open>nombre || id_becado_interno || 'estudiante'\<close>.\<close>

definition nombre_mostrado :: "estudiante \<Rightarrow> string" where
  "nombre_mostrado e = o_bien (nombre_completo_becado e) (o_bien (id_becado_interno e) ''estudiante'')"

text \<open>The object \<open>datosReset\<close>, applied to a row.\<close>

definition datosReset :: "estudiante \<Rightarrow> estudiante" where
  "datosReset e =
     e\<lparr>fecha_de_nacimiento := None,
       telefono_llamada := None,
       telefono_whatsapp := None,
       id_becado_universidad := None,
       correo_estudiantil := None,
       departamento := None,
       municipio := None,
       distrito := None,
       nombre_emergencia := None,
       telefono_emergencia := None,
       parentesco_emergencia := None,
       tiene_una_discapacidad := None,
       detalle_discapacidad := None,
       miembro_de_consejo := None,
       becado_elite := None,
       url_carnet_digital := None,
       url_expediente_digital := None\<rparr>"

record env_reset =
  er_getUser :: incidente
  er_admin :: incidente
  er_or :: "string \<Rightarrow> estudiante \<Rightarrow> bool"
  er_estudiante :: incidente
  er_update :: incidente

text \<open>A reset whose calls all answer from the stores.\<close>

definition sin_incidentes_reset :: env_reset where
  "sin_incidentes_reset =
     \<lparr>er_getUser = Ninguno, er_admin = Ninguno, er_or = or_por_comas,
      er_estudiante = Ninguno, er_update = Ninguno\<rparr>"

definition sin_permiso_reset :: resultado where
  "sin_permiso_reset =
     \<lparr>success = False,
      message = ''No tienes permisos para realizar esta accion. Solo los administradores pueden resetear perfiles.''\<rparr>"

text \<open>Pasos 4 to 7 of the reset, reached by an administrator.\<close>

definition resetearPerfilEstudiante_paso4 :: "env_reset \<Rightarrow> string \<Rightarrow> mundo \<Rightarrow> resultado \<times> mundo" where
  "resetearPerfilEstudiante_paso4 env estudianteId w =
     (case maybeSingle (er_estudiante env)
             (filter (er_or env (filtro_or estudianteId)) (estudiantes w)) of
        Excepcion m \<Rightarrow> (error_inesperado_con m, w)
      | Respuesta estudiante (Some estudianteError) \<Rightarrow> (estudiante_no_encontrado, w)
      | Respuesta None None \<Rightarrow> (estudiante_no_encontrado, w)
      | Respuesta (Some est) None \<Rightarrow>
          (case update_donde (er_update env) (\<lambda>e. est_id e = est_id est) datosReset (estudiantes w) of
             (Excepcion m, filas) \<Rightarrow> (error_inesperado_con m, w)
           | (Respuesta updateData (Some updateError), filas) \<Rightarrow>
               (\<lparr>success = False,
                 message = mensaje_updateError ''perfil'' ''Error al resetear el perfil: '' updateError\<rparr>, w)
           | (Respuesta None None, filas) \<Rightarrow> (registro_no_encontrado, w\<lparr>estudiantes := filas\<rparr>)
           | (Respuesta (Some updateData) None, filas) \<Rightarrow>
               if updateData = [] then (registro_no_encontrado, w\<lparr>estudiantes := filas\<rparr>)
               else
                 (\<lparr>success = True,
                   message = ''Perfil de '' @ nombre_mostrado est
                     @ '' reseteado exitosamente. El estudiante podra completar el formulario nuevamente.''\<rparr>,
                  w\<lparr>estudiantes := filas\<rparr>)))"

definition resetearPerfilEstudiante ::
  "env_reset \<Rightarrow> string option \<Rightarrow> string \<Rightarrow> mundo \<Rightarrow> resultado \<times> mundo" where
  "resetearPerfilEstudiante env sesion estudianteId w =
     (if estudianteId = [] \<or> trim estudianteId = [] then
        (\<lparr>success = False, message = ''ID de estudiante invalido.''\<rparr>, w)
      else
        (case getUser (er_getUser env) sesion of
           Excepcion m \<Rightarrow> (error_inesperado_con m, w)
         | Respuesta user (Some userError) \<Rightarrow> (sin_usuario, w)
         | Respuesta None None \<Rightarrow> (sin_usuario, w)
         | Respuesta (Some uid) None \<Rightarrow>
             (case consulta_admin (er_admin env) uid w of
                Excepcion m \<Rightarrow> (error_inesperado_con m, w)
              | Respuesta adminData adminError \<Rightarrow>
                  if adminError = None \<and> adminData \<noteq> None then
                    resetearPerfilEstudiante_paso4 env estudianteId w
                  else (sin_permiso_reset, w))))"

record env_desvincular =
  ed_getUser :: incidente
  ed_admin :: incidente
  ed_or :: "string \<Rightarrow> estudiante \<Rightarrow> bool"
  ed_estudiante :: incidente
  ed_randomUUID :: string
  ed_update :: incidente
  ed_deleteUser :: incidente

text \<open>
  An unlinking whose calls all answer from the stores, with the token it draws.
\<close>

definition sin_incidentes_desvincular :: "string \<Rightarrow> env_desvincular" where
  "sin_incidentes_desvincular uuid =
     \<lparr>ed_getUser = Ninguno, ed_admin = Ninguno, ed_or = or_por_comas,
      ed_estudiante = Ninguno, ed_randomUUID = uuid,
      ed_update = Ninguno, ed_deleteUser = Ninguno\<rparr>"

definition sin_permiso_desvincular :: resultado where
  "sin_permiso_desvincular =
     \<lparr>success = False,
      message = ''No tienes permisos para realizar esta accion. Solo los administradores pueden desvincular cuentas.''\<rparr>"

text \<open>
  The results by which an action refuses a caller: no session, or no administrator row.
\<close>

definition fallo_de_autorizacion :: "resultado \<Rightarrow> bool" where
  "fallo_de_autorizacion r =
     (r = sin_usuario \<or> r = sin_permiso_reset \<or> r = sin_permiso_desvincular)"

text \<open>The object \<open>datosDesvinculacion\<close>, applied to a row.\<close>

definition datosDesvinculacion :: "string \<Rightarrow> estudiante \<Rightarrow> estudiante" where
  "datosDesvinculacion nuevoOnboardingToken e =
     e\<lparr>auth_user_id := None,
       ha_completado_onboarding := False,
       onboarding_token := Some nuevoOnboardingToken\<rparr>"

definition desvinculado_sin_borrar :: "string \<Rightarrow> resultado" where
  "desvinculado_sin_borrar detalle =
     \<lparr>success = False,
      message = ''El estudiante fue desvinculado en la base de datos, pero hubo un error al borrar el usuario de Auth: ''
        @ detalle @ ''. Por favor, contacta al administrador del sistema.''\<rparr>"

definition desvinculado_sin_borrar_inesperado :: "string \<Rightarrow> resultado" where
  "desvinculado_sin_borrar_inesperado errorMessage =
     \<lparr>success = False,
      message = ''El estudiante fue desvinculado en la base de datos, pero hubo un error inesperado al borrar el usuario de Auth: ''
        @ errorMessage @ ''. Por favor, contacta al administrador del sistema.''\<rparr>"

text \<open>The wording that only the two partial results above begin with.\<close>

definition mensaje_parcial :: "resultado \<Rightarrow> bool" where
  "mensaje_parcial r = startsWith (message r) ''El estudiante fue desvinculado en la base de datos, pero''"

definition desvinculada :: "estudiante \<Rightarrow> resultado" where
  "desvinculada est =
     \<lparr>success = True,
      message = ''Cuenta de '' @ nombre_mostrado est
        @ '' desvinculada exitosamente. El usuario de Auth ha sido eliminado y se ha generado un nuevo token de activacion.''\<rparr>"

text \<open>
  Paso 6, after the row was unlinked: the identity is deleted from the credential
  store when the row had one. \<open>ed_deleteUser\<close> covers \<open>createAdminClient()\<close> and
  \<open>deleteUser\<close>, both inside the inner \<open>try\<close>.
\<close>

definition desvincularCuentaEstudiante_paso6 ::
  "env_desvincular \<Rightarrow> estudiante \<Rightarrow> mundo \<Rightarrow> resultado \<times> mundo" where
  "desvincularCuentaEstudiante_paso6 env est w =
     (if falsy (auth_user_id est) then (desvinculada est, w)
      else
        (case deleteUser (ed_deleteUser env) (o_bien (auth_user_id est) []) (auth_usuarios w) of
           (Excepcion m, usuarios) \<Rightarrow> (desvinculado_sin_borrar_inesperado m, w)
         | (Respuesta d (Some deleteError), usuarios) \<Rightarrow>
             (desvinculado_sin_borrar (o_bien (Some (pg_message deleteError)) ''Error desconocido''), w)
         | (Respuesta d None, usuarios) \<Rightarrow> (desvinculada est, w\<lparr>auth_usuarios := usuarios\<rparr>)))"

text \<open>Pasos 4 and 5: the row is found and unlinked first, with a new token.\<close>

definition desvincularCuentaEstudiante_paso4 ::
  "env_desvincular \<Rightarrow> string \<Rightarrow> mundo \<Rightarrow> resultado \<times> mundo" where
  "desvincularCuentaEstudiante_paso4 env estudianteId w =
     (case maybeSingle (ed_estudiante env)
             (filter (ed_or env (filtro_or estudianteId)) (estudiantes w)) of
        Excepcion m \<Rightarrow> (error_inesperado_con m, w)
      | Respuesta estudiante (Some estudianteError) \<Rightarrow> (estudiante_no_encontrado, w)
      | Respuesta None None \<Rightarrow> (estudiante_no_encontrado, w)
      | Respuesta (Some est) None \<Rightarrow>
          (case update_donde (ed_update env) (\<lambda>e. est_id e = est_id est)
                  (datosDesvinculacion (ed_randomUUID env)) (estudiantes w) of
             (Excepcion m, filas) \<Rightarrow> (error_inesperado_con m, w)
           | (Respuesta updateData (Some updateError), filas) \<Rightarrow>
               (\<lparr>success = False,
                 message = mensaje_updateError ''registro''
                   ''Error al desvincular el estudiante en la base de datos: '' updateError\<rparr>, w)
           | (Respuesta None None, filas) \<Rightarrow> (registro_no_encontrado, w\<lparr>estudiantes := filas\<rparr>)
           | (Respuesta (Some updateData) None, filas) \<Rightarrow>
               if updateData = [] then (registro_no_encontrado, w\<lparr>estudiantes := filas\<rparr>)
               else desvincularCuentaEstudiante_paso6 env est (w\<lparr>estudiantes := filas\<rparr>)))"

definition desvincularCuentaEstudiante ::
  "env_desvincular \<Rightarrow> string option \<Rightarrow> string \<Rightarrow> mundo \<Rightarrow> resultado \<times> mundo" where
  "desvincularCuentaEstudiante env sesion estudianteId w =
     (if estudianteId = [] \<or> trim estudianteId = [] then
        (\<lparr>success = False, message = ''ID de estudiante invalido.''\<rparr>, w)
      else
        (case getUser (ed_getUser env) sesion of
           Excepcion m \<Rightarrow> (error_inesperado_con m, w)
         | Respuesta user (Some userError) \<Rightarrow> (sin_usuario, w)
         | Respuesta None None \<Rightarrow> (sin_usuario, w)
         | Respuesta (Some uid) None \<Rightarrow>
             (case consulta_admin (ed_admin env) uid w of
                Excepcion m \<Rightarrow> (error_inesperado_con m, w)
              | Respuesta adminData adminError \<Rightarrow>
                  if adminError = None \<and> adminData \<noteq> None then
                    desvincularCuentaEstudiante_paso4 env estudianteId w
                  else (sin_permiso_desvincular, w))))"

subsection \<open>Route protection (\<open>middleware\<close>)\<close>

text \<open>
  \<open>user\<close> is the identity that \<open>updateSession(request)\<close> returns (the helper is not
  among the sources): \<open>None\<close> for an anonymous caller. The middleware answers with the
  response that lets the request through, or with a redirect.
\<close>

datatype respuesta_mw = Continua | Redireccion string

definition publicPaths :: "string list" where
  "publicPaths = [''/activar'', ''/auth/callback'', ''/login'', ''/unauthorized'']"

definition isPublicPath :: "string \<Rightarrow> bool" where
  "isPublicPath pathname = (list_ex (\<lambda>path. startsWith pathname path) publicPaths \<or> pathname = ''/'')"

definition isAdminRoute :: "string \<Rightarrow> bool" where
  "isAdminRoute pathname = startsWith pathname ''/admin''"

definition isDashboardRoute :: "string \<Rightarrow> bool" where
  "isDashboardRoute pathname = startsWith pathname ''/dashboard''"

definition isRootOrAuth :: "string \<Rightarrow> bool" where
  "isRootOrAuth pathname =
     (pathname = ''/'' \<or> startsWith pathname ''/login'' \<or> startsWith pathname ''/auth'')"

definition middleware :: "incidente \<Rightarrow> string \<Rightarrow> string option \<Rightarrow> mundo \<Rightarrow> respuesta_mw" where
  "middleware inc pathname user w =
     (if isPublicPath pathname then Continua
      else
        (case user of
           None \<Rightarrow>
             if \<not> isPublicPath pathname \<and> pathname \<noteq> ''/login'' then Redireccion ''/login''
             else Continua
         | Some uid \<Rightarrow>
             (case consulta_admin inc uid w of
                Excepcion m \<Rightarrow>
                  if isAdminRoute pathname then Redireccion ''/dashboard'' else Continua
              | Respuesta adminData adminError \<Rightarrow>
                  if adminError = None \<and> adminData \<noteq> None then
                    (if isDashboardRoute pathname \<or> isRootOrAuth pathname then
                       (if pathname \<noteq> ''/admin/dashboard'' then Redireccion ''/admin/dashboard''
                        else Continua)
                     else if isAdminRoute pathname then Continua
                     else if pathname \<noteq> ''/admin/dashboard'' then Redireccion ''/admin/dashboard''
                     else Continua)
                  else if isAdminRoute pathname then Redireccion ''/dashboard''
                  else if isDashboardRoute pathname then Continua
                  else if isRootOrAuth pathname then Redireccion ''/dashboard''
                  else if isPublicPath pathname then Continua
                  else Continua)))"

subsection \<open>Example data\<close>

text \<open>A row of \<open>estudiantes\<close> as the bulk import leaves it: every nullable column null.\<close>

definition fila_nueva :: "string \<Rightarrow> estudiante" where
  "fila_nueva i =
     \<lparr>est_id = i, id_becado_interno = None, nombre_completo_becado = None,
      correo_personal = None, ha_completado_onboarding = False, onboarding_token = None,
      auth_user_id = None, fecha_de_nacimiento = None, telefono_llamada = None,
      telefono_whatsapp = None, id_becado_universidad = None, correo_estudiantil = None,
      departamento = None, municipio = None, distrito = None, nombre_emergencia = None,
      telefono_emergencia = None, parentesco_emergencia = None, tiene_una_discapacidad = None,
      detalle_discapacidad = None, miembro_de_consejo = None, becado_elite = None,
      url_carnet_digital = None, url_expediente_digital = None\<rparr>"

definition ej_admin :: admin_fila where
  "ej_admin = \<lparr>ua_id = ''7'', ua_auth_user_id = ''uid-admin''\<rparr>"

text \<open>A store whose only contents are one administrator.\<close>

definition ej_admins :: mundo where
  "ej_admins =
     \<lparr>estudiantes = [], usuarios_administrativos = [ej_admin], solicitudes_horas = [],
      horas_voluntariados = [], auth_usuarios = []\<rparr>"

text \<open>
  The student of the specification's scenario, invited and not yet activated, and her
  request for 4 hours.
\<close>

definition ej_jane :: estudiante where
  "ej_jane =
     (fila_nueva ''1'')
       \<lparr>id_becado_interno := Some ''BDI-042'',
        nombre_completo_becado := Some ''Jane Doe'',
        correo_personal := Some ''jane@example.com'',
        onboarding_token := Some ''tok-1''\<rparr>"

definition ej_solicitud :: solicitud where
  "ej_solicitud =
     \<lparr>sol_id = ''sol-1'', estudiante_id = ''1'', fecha_actividad = ''2025-03-01'',
      nombre_actividad = ''Jornada de limpieza'', cantidad_horas = Finito 4,
      responsable_encargado = None, estado = ''pendiente''\<rparr>"

definition ej_mundo :: mundo where
  "ej_mundo =
     \<lparr>estudiantes = [ej_jane], usuarios_administrativos = [ej_admin],
      solicitudes_horas = [ej_solicitud], horas_voluntariados = [], auth_usuarios = []\<rparr>"

text \<open>
  Jane after her activation and her profile wizard, with both documents generated,
  and the stores that hold her identity.
\<close>

definition ej_jane_activa :: estudiante where
  "ej_jane_activa =
     ej_jane
       \<lparr>ha_completado_onboarding := True, onboarding_token := None,
        auth_user_id := Some ''uid-jane'',
        fecha_de_nacimiento := Some ''2003-05-17'', telefono_llamada := Some ''7000-0000'',
        telefono_whatsapp := Some ''7000-0000'', id_becado_universidad := Some ''U-2021-118'',
        correo_estudiantil := Some ''jane@uni.example'', departamento := Some ''San Salvador'',
        municipio := Some ''San Salvador Centro'', distrito := Some ''San Salvador'',
        nombre_emergencia := Some ''John Doe'', telefono_emergencia := Some ''7111-1111'',
        parentesco_emergencia := Some ''Padre'', tiene_una_discapacidad := Some False,
        detalle_discapacidad := None, miembro_de_consejo := Some False, becado_elite := Some True,
        url_carnet_digital := Some ''https://storage.example/carnet.pdf'',
        url_expediente_digital := Some ''https://storage.example/expediente.pdf''\<rparr>"

definition ej_mundo_activo :: mundo where
  "ej_mundo_activo =
     \<lparr>estudiantes = [ej_jane_activa], usuarios_administrativos = [ej_admin],
      solicitudes_horas = [ej_solicitud], horas_voluntariados = [],
      auth_usuarios =
        [\<lparr>au_id = ''uid-jane'', au_email = ''jane@example.com'', au_password = ''LongEnough1''\<rparr>]\<rparr>"

text \<open>
  A linked student whose row has no name, and an unlinking during which the credential
  store refuses the deletion.
\<close>

definition ej_sin_nombre :: estudiante where
  "ej_sin_nombre =
     (fila_nueva ''2'')
       \<lparr>id_becado_interno := Some ''BDI-077'',
        correo_personal := Some ''sam@example.com'',
        ha_completado_onboarding := True,
        auth_user_id := Some ''uid-sam''\<rparr>"

definition ej_mundo_sin_nombre :: mundo where
  "ej_mundo_sin_nombre =
     \<lparr>estudiantes = [ej_sin_nombre], usuarios_administrativos = [ej_admin],
      solicitudes_horas = [], horas_voluntariados = [],
      auth_usuarios =
        [\<lparr>au_id = ''uid-sam'', au_email = ''sam@example.com'', au_password = ''LongEnough1''\<rparr>]\<rparr>"

definition ej_borrado_falla :: env_desvincular where
  "ej_borrado_falla =
     (sin_incidentes_desvincular ''tok-2'')
       \<lparr>ed_deleteUser :=
          Devuelve \<lparr>pg_code = ''unexpected_failure'', pg_message = ''Database error deleting user''\<rparr>\<rparr>"

text \<open>
  Two requests activate with Jane's token. The second validates the token, and while it
  is suspended the first runs from start to end; then the second goes on.
\<close>

definition ej_carrera :: env_activar where
  "ej_carrera =
     (sin_incidentes_activar ''uid-b'')
       \<lparr>ea_interferencia :=
          (\<lambda>w. snd (activarCuenta (sin_incidentes_activar ''uid-a'') ''tok-1'' ''a@example.com''
                       ''LongEnough1'' w))\<rparr>"

text \<open>The same store after that request was approved for 5 hours.\<close>

definition ej_mundo_aprobado :: mundo where
  "ej_mundo_aprobado =
     ej_mundo
       \<lparr>horas_voluntariados :=
          [\<lparr>hv_id_becado_interno = ''BDI-042'', hv_nombre_completo_becado = ''Jane Doe'',
            hv_fecha_actividad = ''2025-03-01'', hv_nombre_actividad = ''Jornada de limpieza'',
            hv_cantidad_horas = Some 5, hv_responsable_encargado = ''N/A'', hv_estado = ''validado''\<rparr>],
        solicitudes_horas := [ej_solicitud\<lparr>estado := ''aprobado''\<rparr>]\<rparr>"

section \<open>Properties\<close>

subsection \<open>Auxiliary facts\<close>

lemma startsWith_simps [simp]:
  "startsWith s [] = True"
  "startsWith [] (c # p) = False"
  "startsWith (d # s) (c # p) = (d = c \<and> startsWith s p)"
  by (auto simp: startsWith_def)

lemma trim_Nil [simp]: "trim [] = []"
  by (simp add: trim_def)

lemma filter_update_donde:
  assumes "\<And>x. P (f x) = P x"
  shows "filter P (map (\<lambda>x. if P x then f x else x) xs) = map f (filter P xs)"
  using assms by (induction xs) auto

lemmas middleware_defs =
  middleware_def isPublicPath_def publicPaths_def isAdminRoute_def isDashboardRoute_def
  isRootOrAuth_def consulta_admin_def maybeSingle_def

subsection \<open>Route protection\<close>



text \<open>
  C8, as the claim states it, fails on a path that is neither public nor in the admin
  area but begins with \<open>/auth\<close>: when the role lookup answers with an error the caller
  is redirected to \<open>/dashboard\<close> (the student rule for root-or-auth paths), so it is
  not let through; when the lookup throws, the caller is let through, which is not
  what the student rule does there.
\<close>

theorem middleware_consulta_fallida_contraejemplo:
  "\<not> isPublicPath ''/auth/confirm'' \<and> \<not> isAdminRoute ''/auth/confirm''
   \<and> middleware (Devuelve PGRST116) ''/auth/confirm'' (Some ''uid-jane'') ej_admins = Redireccion ''/dashboard''
   \<and> middleware (Lanza ''fetch failed'') ''/auth/confirm'' (Some ''uid-jane'') ej_admins = Continua
   \<and> middleware Ninguno ''/auth/confirm'' (Some ''uid-jane'') ej_admins = Redireccion ''/dashboard''"
  by (simp add: middleware_defs ej_admins_def ej_admin_def)

text \<open>
  C8, amended. For an authenticated caller whose role lookup fails, the middleware always
  answers (it is a total function into responses), and never treats the caller as an
  administrator. When the lookup answers with an error, the caller is routed exactly
  as a caller without an administrator row: public paths pass, admin-area paths are
  redirected to \<open>/dashboard\<close>, \<open>/dashboard\<close> paths pass, other paths that begin with
  \<open>/auth\<close> are redirected to \<open>/dashboard\<close>, everything else passes. When the lookup
  throws, admin-area paths are redirected to \<open>/dashboard\<close> and every other path passes.
\<close>

theorem middleware_consulta_fallida:
  "middleware (Devuelve e) pathname (Some uid) w =
     (if isPublicPath pathname then Continua
      else if isAdminRoute pathname then Redireccion ''/dashboard''
      else if isDashboardRoute pathname then Continua
      else if isRootOrAuth pathname then Redireccion ''/dashboard''
      else Continua)
   \<and> middleware (Lanza m) pathname (Some uid) w =
     (if isPublicPath pathname then Continua
      else if isAdminRoute pathname then Redireccion ''/dashboard''
      else Continua)
   \<and> (filter (\<lambda>a. ua_auth_user_id a = uid) (usuarios_administrativos w) = [] \<longrightarrow>
        middleware (Devuelve e) pathname (Some uid) w = middleware Ninguno pathname (Some uid) w)"
  by (simp add: middleware_def consulta_admin_def maybeSingle_def)

theorem middleware_consulta_fallida_witness:
  "middleware (Devuelve PGRST116) ''/admin/estudiantes'' (Some ''uid-admin'') ej_admins = Redireccion ''/dashboard''
   \<and> middleware (Lanza ''fetch failed'') ''/admin/estudiantes'' (Some ''uid-admin'') ej_admins = Redireccion ''/dashboard''
   \<and> middleware (Devuelve PGRST116) ''/horas-voluntariado'' (Some ''uid-jane'') ej_admins
       = middleware Ninguno ''/horas-voluntariado'' (Some ''uid-jane'') ej_admins"
  using middleware_consulta_fallida [of PGRST116 "''/admin/estudiantes''" "''uid-admin''" ej_admins "''fetch failed''"]
        middleware_consulta_fallida [of PGRST116 "''/horas-voluntariado''" "''uid-jane''" ej_admins "''fetch failed''"]
  by (simp add: middleware_defs ej_admins_def ej_admin_def)

subsection \<open>The approval workflow\<close>

text \<open>
  The approval when nothing fails, for a request that is not yet processed.
\<close>

lemma aprobarSolicitud_camino_feliz:
  assumes "solicitudId \<noteq> []" "solicitudId \<noteq> ''undefined''"
    and "filter (\<lambda>s. sol_id s = solicitudId) (solicitudes_horas w) = [sol]"
    and "estado sol \<noteq> ''aprobado''" "estado sol \<noteq> ''rechazado''"
    and "filter (\<lambda>e. est_id e = estudiante_id sol) (estudiantes w) = [est]"
    and "id_becado_interno est = Some id_interno" "id_interno \<noteq> []"
    and "nombre_completo_becado est = Some nombre" "trim nombre \<noteq> []"
    and "horas = (case horasAprobadas of Some h \<Rightarrow> h | None \<Rightarrow> cantidad_horas sol)"
  shows "aprobarSolicitud sin_incidentes_aprobar sesion solicitudId horasAprobadas w =
     (if isNaN horas \<or> menor_igual_cero horas then (horas_invalidas, w)
      else (aprobada,
            w\<lparr>horas_voluntariados := horas_voluntariados w @ [horasData sol id_interno nombre horas],
              solicitudes_horas := map (\<lambda>s. if sol_id s = solicitudId then s\<lparr>estado := ''aprobado''\<rparr> else s)
                 (solicitudes_horas w)\<rparr>))"
proof -
  have n: "nombre \<noteq> []" using assms(10) by auto
  show ?thesis
    using assms n
    by (simp add: aprobarSolicitud_def single_def aprobarSolicitud_paso2_def aprobarSolicitud_paso3_def
        falsy_def o_bien_def insert_fila_def update_donde_def Let_def sin_incidentes_aprobar_def aprobada_def)
qed

lemma aprobarSolicitud_paso3_exito:
  assumes "aprobarSolicitud_paso3 env solicitudId fila w = (r, w1)" and "success r"
  shows "w1 = w\<lparr>horas_voluntariados := horas_voluntariados w @ [fila],
              solicitudes_horas := map (\<lambda>s. if sol_id s = solicitudId then s\<lparr>estado := ''aprobado''\<rparr> else s)
                 (solicitudes_horas w)\<rparr>"
  using assms
  by (auto simp: aprobarSolicitud_paso3_def insert_fila_def update_donde_def error_inesperado_def
      split: incidente.splits)

lemma aprobarSolicitud_paso2_exito:
  assumes "aprobarSolicitud_paso2 env solicitudId horasAprobadas sol w = (r, w1)" and "success r"
  shows "\<exists>fila. w1 = w\<lparr>horas_voluntariados := horas_voluntariados w @ [fila],
              solicitudes_horas := map (\<lambda>s. if sol_id s = solicitudId then s\<lparr>estado := ''aprobado''\<rparr> else s)
                 (solicitudes_horas w)\<rparr>"
proof (cases "single (aa_estudiante env) (filter (\<lambda>e. est_id e = estudiante_id sol) (estudiantes w))")
  case (Excepcion m)
  with assms show ?thesis by (auto simp: aprobarSolicitud_paso2_def error_inesperado_def)
next
  case (Respuesta estudiante err)
  with assms show ?thesis
    by (auto simp: aprobarSolicitud_paso2_def Let_def horas_invalidas_def
          split: option.splits if_splits dest: aprobarSolicitud_paso3_exito)
qed

lemma aprobarSolicitud_exito:
  assumes "aprobarSolicitud env sesion solicitudId horasAprobadas w = (r, w1)" and "success r"
  shows "\<exists>sol fila. solicitudId \<noteq> [] \<and> solicitudId \<noteq> ''undefined''
      \<and> filter (\<lambda>s. sol_id s = solicitudId) (solicitudes_horas w) = [sol]
      \<and> w1 = w\<lparr>horas_voluntariados := horas_voluntariados w @ [fila],
              solicitudes_horas := map (\<lambda>s. if sol_id s = solicitudId then s\<lparr>estado := ''aprobado''\<rparr> else s)
                 (solicitudes_horas w)\<rparr>"
proof -
  have valido: "solicitudId \<noteq> []" "solicitudId \<noteq> ''undefined''"
    using assms by (auto simp: aprobarSolicitud_def id_invalido_def split: if_splits)
  let ?filas = "filter (\<lambda>s. sol_id s = solicitudId) (solicitudes_horas w)"
  from assms valido obtain sol where
    una: "single (aa_solicitud env) ?filas = Respuesta (Some sol) None"
    and p2: "aprobarSolicitud_paso2 env solicitudId horasAprobadas sol w = (r, w1)"
    by (auto simp: aprobarSolicitud_def error_inesperado_def ya_procesada_def
          split: respuesta.splits option.splits if_splits)
  from una have "?filas = [sol]"
    by (auto simp: single_def split: incidente.splits list.splits if_splits)
  with valido aprobarSolicitud_paso2_exito [OF p2 assms(2)] show ?thesis by blast
qed

lemma aprobarSolicitud_falla_sin_cambio:
  assumes "filter (\<lambda>s. sol_id s = solicitudId) (solicitudes_horas w) = [sol]"
    and "estado sol = ''aprobado'' \<or> estado sol = ''rechazado''"
  shows "\<not> success (fst (aprobarSolicitud env sesion solicitudId horasAprobadas w))
       \<and> snd (aprobarSolicitud env sesion solicitudId horasAprobadas w) = w
       \<and> (aa_solicitud env = Ninguno \<and> solicitudId \<noteq> [] \<and> solicitudId \<noteq> ''undefined''
            \<longrightarrow> fst (aprobarSolicitud env sesion solicitudId horasAprobadas w) = ya_procesada)"
  using assms
  by (cases "aa_solicitud env")
     (auto simp: aprobarSolicitud_def single_def id_invalido_def error_inesperado_def ya_procesada_def)

text \<open>
  C4. After a call of \<open>aprobarSolicitud\<close> on a request id returned success, a second
  call on the same id, whoever makes it, with whatever hours and however its own
  calls end, does not succeed and changes nothing: no second row is inserted in
  \<open>horas_voluntariados\<close>. When its lookup of the request answers from the store, its
  result is ``Esta solicitud ya ha sido procesada.''.
\<close>

theorem aprobarSolicitud_segunda_vez:
  assumes "aprobarSolicitud env1 sesion1 solicitudId horas1 w = (r1, w1)" and "success r1"
  shows "\<not> success (fst (aprobarSolicitud env2 sesion2 solicitudId horas2 w1))
       \<and> snd (aprobarSolicitud env2 sesion2 solicitudId horas2 w1) = w1
       \<and> (aa_solicitud env2 = Ninguno \<longrightarrow>
            fst (aprobarSolicitud env2 sesion2 solicitudId horas2 w1) = ya_procesada)"
proof -
  from aprobarSolicitud_exito [OF assms] obtain sol fila where
    valido: "solicitudId \<noteq> []" "solicitudId \<noteq> ''undefined''"
    and una: "filter (\<lambda>s. sol_id s = solicitudId) (solicitudes_horas w) = [sol]"
    and w1: "w1 = w\<lparr>horas_voluntariados := horas_voluntariados w @ [fila],
              solicitudes_horas := map (\<lambda>s. if sol_id s = solicitudId then s\<lparr>estado := ''aprobado''\<rparr> else s)
                 (solicitudes_horas w)\<rparr>"
    by blast
  have "filter (\<lambda>s. sol_id s = solicitudId) (solicitudes_horas w1) = [sol\<lparr>estado := ''aprobado''\<rparr>]"
    using una by (simp add: w1 filter_update_donde)
  from aprobarSolicitud_falla_sin_cambio [OF this, of env2 sesion2 horas2] valido
  show ?thesis by simp
qed

theorem aprobarSolicitud_segunda_vez_witness:
  "fst (aprobarSolicitud sin_incidentes_aprobar (Some ''uid-admin'') ''sol-1'' (Some (Finito 5)) ej_mundo) = aprobada
   \<and> aprobarSolicitud sin_incidentes_aprobar (Some ''uid-admin'') ''sol-1'' (Some (Finito 5))
        (snd (aprobarSolicitud sin_incidentes_aprobar (Some ''uid-admin'') ''sol-1'' (Some (Finito 5)) ej_mundo))
      = (ya_procesada, snd (aprobarSolicitud sin_incidentes_aprobar (Some ''uid-admin'') ''sol-1'' (Some (Finito 5)) ej_mundo))
   \<and> length (horas_voluntariados (snd (aprobarSolicitud sin_incidentes_aprobar (Some ''uid-admin'') ''sol-1'' (Some (Finito 5)) ej_mundo))) = 1"
proof -
  have primera: "aprobarSolicitud sin_incidentes_aprobar (Some ''uid-admin'') ''sol-1'' (Some (Finito 5)) ej_mundo =
     (aprobada,
      ej_mundo\<lparr>horas_voluntariados := [horasData ej_solicitud ''BDI-042'' ''Jane Doe'' (Finito 5)],
        solicitudes_horas := [ej_solicitud\<lparr>estado := ''aprobado''\<rparr>]\<rparr>)"
    using aprobarSolicitud_camino_feliz [of "''sol-1''" ej_mundo ej_solicitud ej_jane "''BDI-042''" "''Jane Doe''"
         "Finito 5" "Some (Finito 5)" "Some ''uid-admin''"]
    by (simp add: ej_mundo_def ej_solicitud_def ej_jane_def fila_nueva_def trim_def es_espacio_def)
  have ok: "success aprobada" by (simp add: aprobada_def)
  have inc: "aa_solicitud sin_incidentes_aprobar = Ninguno" by (simp add: sin_incidentes_aprobar_def)
  from aprobarSolicitud_segunda_vez [OF primera ok, of sin_incidentes_aprobar "Some ''uid-admin''" "Some (Finito 5)"] inc
  show ?thesis
    by (simp add: primera prod_eq_iff)
qed




text \<open>
  C3. \<open>rechazarSolicitud\<close> does not look at the current \<open>estado\<close>: on a request that is
  already \<open>'aprobado'\<close> it succeeds and the row becomes \<open>'rechazado'\<close>, while the hours
  credited by the approval stay in \<open>horas_voluntariados\<close>. The sibling
  \<open>aprobarSolicitud\<close> refuses a processed request.
\<close>

theorem rechazarSolicitud_sobre_aprobada:
  assumes "solicitudId \<noteq> []" "solicitudId \<noteq> ''undefined''"
    and "filter (\<lambda>s. sol_id s = solicitudId) (solicitudes_horas w) = [sol]"
    and "estado sol = ''aprobado''"
  shows "rechazarSolicitud Ninguno sesion solicitudId w =
           (rechazada,
            w\<lparr>solicitudes_horas :=
                map (\<lambda>s. if sol_id s = solicitudId then s\<lparr>estado := ''rechazado''\<rparr> else s)
                  (solicitudes_horas w)\<rparr>)
       \<and> filter (\<lambda>s. sol_id s = solicitudId)
            (map (\<lambda>s. if sol_id s = solicitudId then s\<lparr>estado := ''rechazado''\<rparr> else s)
               (solicitudes_horas w)) = [sol\<lparr>estado := ''rechazado''\<rparr>]"
  using assms by (simp add: rechazarSolicitud_def update_donde_def filter_update_donde)

theorem rechazarSolicitud_sobre_aprobada_witness:
  "aprobarSolicitud sin_incidentes_aprobar (Some ''uid-admin'') ''sol-1'' (Some (Finito 5)) ej_mundo
     = (aprobada, ej_mundo_aprobado)
   \<and> rechazarSolicitud Ninguno (Some ''uid-admin'') ''sol-1'' ej_mundo_aprobado
     = (rechazada, ej_mundo_aprobado\<lparr>solicitudes_horas := [ej_solicitud\<lparr>estado := ''rechazado''\<rparr>]\<rparr>)
   \<and> map hv_cantidad_horas
        (horas_voluntariados (snd (rechazarSolicitud Ninguno (Some ''uid-admin'') ''sol-1'' ej_mundo_aprobado)))
     = [Some 5]"
proof -
  have primera: "aprobarSolicitud sin_incidentes_aprobar (Some ''uid-admin'') ''sol-1'' (Some (Finito 5)) ej_mundo
     = (aprobada, ej_mundo_aprobado)"
    using aprobarSolicitud_camino_feliz [of "''sol-1''" ej_mundo ej_solicitud ej_jane "''BDI-042''" "''Jane Doe''"
         "Finito 5" "Some (Finito 5)" "Some ''uid-admin''"]
    by (simp add: ej_mundo_aprobado_def ej_mundo_def ej_solicitud_def ej_jane_def fila_nueva_def trim_def
          es_espacio_def horasData_def o_bien_def)
  have datos: "''sol-1'' \<noteq> []" "''sol-1'' \<noteq> ''undefined''"
    "filter (\<lambda>s. sol_id s = ''sol-1'') (solicitudes_horas ej_mundo_aprobado) = [ej_solicitud\<lparr>estado := ''aprobado''\<rparr>]"
    "estado (ej_solicitud\<lparr>estado := ''aprobado''\<rparr>) = ''aprobado''"
    by (simp_all add: ej_mundo_aprobado_def ej_solicitud_def)
  have m: "map (\<lambda>s. if sol_id s = ''sol-1'' then s\<lparr>estado := ''rechazado''\<rparr> else s) (solicitudes_horas ej_mundo_aprobado)
     = [ej_solicitud\<lparr>estado := ''rechazado''\<rparr>]"
    by (simp add: ej_mundo_aprobado_def ej_solicitud_def)
  show ?thesis
    using rechazarSolicitud_sobre_aprobada [OF datos, of "Some ''uid-admin''"] primera
    by (simp add: m) (simp add: ej_mundo_aprobado_def)
qed

text \<open>
  Neither action reads \<open>usuarios_administrativos\<close>: replacing the table changes
  nothing but the table itself.
\<close>

lemma aprobarSolicitud_paso3_admins:
  "aprobarSolicitud_paso3 env solicitudId fila (w\<lparr>usuarios_administrativos := admins\<rparr>) =
     (fst (aprobarSolicitud_paso3 env solicitudId fila w),
      (snd (aprobarSolicitud_paso3 env solicitudId fila w))\<lparr>usuarios_administrativos := admins\<rparr>)"
  by (cases "aa_insert env"; cases "aa_update env")
     (simp_all add: aprobarSolicitud_paso3_def insert_fila_def update_donde_def)

lemma aprobarSolicitud_paso2_admins:
  "aprobarSolicitud_paso2 env solicitudId horasAprobadas sol (w\<lparr>usuarios_administrativos := admins\<rparr>) =
     (fst (aprobarSolicitud_paso2 env solicitudId horasAprobadas sol w),
      (snd (aprobarSolicitud_paso2 env solicitudId horasAprobadas sol w))\<lparr>usuarios_administrativos := admins\<rparr>)"
  by (simp add: aprobarSolicitud_paso2_def aprobarSolicitud_paso3_admins Let_def
        split: respuesta.splits option.splits)

lemma aprobarSolicitud_admins:
  "aprobarSolicitud env sesion solicitudId horasAprobadas (w\<lparr>usuarios_administrativos := admins\<rparr>) =
     (fst (aprobarSolicitud env sesion solicitudId horasAprobadas w),
      (snd (aprobarSolicitud env sesion solicitudId horasAprobadas w))\<lparr>usuarios_administrativos := admins\<rparr>)"
  by (simp add: aprobarSolicitud_def aprobarSolicitud_paso2_admins
        split: respuesta.splits option.splits)

lemma rechazarSolicitud_admins:
  "rechazarSolicitud inc sesion solicitudId (w\<lparr>usuarios_administrativos := admins\<rparr>) =
     (fst (rechazarSolicitud inc sesion solicitudId w),
      (snd (rechazarSolicitud inc sesion solicitudId w))\<lparr>usuarios_administrativos := admins\<rparr>)"
  by (cases inc) (simp_all add: rechazarSolicitud_def update_donde_def)

text \<open>No exit of either action is a refusal of the caller.\<close>

lemmas resultados_defs =
  fallo_de_autorizacion_def sin_usuario_def sin_permiso_reset_def sin_permiso_desvincular_def
  id_invalido_def error_inesperado_def ya_procesada_def horas_invalidas_def aprobada_def rechazada_def

lemma aprobarSolicitud_paso3_autorizacion:
  "\<not> fallo_de_autorizacion (fst (aprobarSolicitud_paso3 env solicitudId fila w))"
  by (cases "aa_insert env"; cases "aa_update env")
     (simp_all add: aprobarSolicitud_paso3_def insert_fila_def update_donde_def resultados_defs)

lemma aprobarSolicitud_paso2_autorizacion:
  "\<not> fallo_de_autorizacion (fst (aprobarSolicitud_paso2 env solicitudId horasAprobadas sol w))"
  using aprobarSolicitud_paso3_autorizacion
  by (simp add: aprobarSolicitud_paso2_def Let_def split: respuesta.splits option.splits)
     (simp add: resultados_defs)

lemma aprobarSolicitud_autorizacion:
  "\<not> fallo_de_autorizacion (fst (aprobarSolicitud env sesion solicitudId horasAprobadas w))"
  using aprobarSolicitud_paso2_autorizacion
  by (simp add: aprobarSolicitud_def split: respuesta.splits option.splits)
     (simp add: resultados_defs)

lemma rechazarSolicitud_autorizacion:
  "\<not> fallo_de_autorizacion (fst (rechazarSolicitud inc sesion solicitudId w))"
  by (cases inc) (simp_all add: rechazarSolicitud_def update_donde_def resultados_defs)

lemma resetearPerfilEstudiante_sin_rol:
  assumes "estudianteId \<noteq> []" "trim estudianteId \<noteq> []"
    and "filter (\<lambda>a. ua_auth_user_id a = uid) (usuarios_administrativos w) = []"
    and "er_getUser env = Ninguno" "er_admin env = Ninguno"
  shows "resetearPerfilEstudiante env (Some uid) estudianteId w = (sin_permiso_reset, w)"
  using assms
  by (simp add: resetearPerfilEstudiante_def getUser_def consulta_admin_def maybeSingle_def)

lemma desvincularCuentaEstudiante_sin_rol:
  assumes "estudianteId \<noteq> []" "trim estudianteId \<noteq> []"
    and "filter (\<lambda>a. ua_auth_user_id a = uid) (usuarios_administrativos w) = []"
    and "ed_getUser env = Ninguno" "ed_admin env = Ninguno"
  shows "desvincularCuentaEstudiante env (Some uid) estudianteId w = (sin_permiso_desvincular, w)"
  using assms
  by (simp add: desvincularCuentaEstudiante_def getUser_def consulta_admin_def maybeSingle_def)

text \<open>
  C10. \<open>aprobarSolicitud\<close> and \<open>rechazarSolicitud\<close> give the same result and the same
  stores whoever the caller is, and the same result whatever \<open>usuarios_administrativos\<close>
  holds; none of their results is a refusal of the caller. For every caller, a
  rejection of a valid id whose update answers marks the request rejected, and an
  approval of a request that is not yet processed, with a student that has an internal
  id and a name and with a positive number of hours, inserts the row in
  \<open>horas_voluntariados\<close> and marks the request approved when its calls answer.
  \<open>resetearPerfilEstudiante\<close> and
  \<open>desvincularCuentaEstudiante\<close>, called by an authenticated caller without an
  administrator row, fail with their permission message and change nothing.
\<close>

theorem solicitudes_sin_verificacion_de_rol:
  "aprobarSolicitud env sesion solicitudId horas w = aprobarSolicitud env sesion' solicitudId horas w
   \<and> rechazarSolicitud inc sesion solicitudId w = rechazarSolicitud inc sesion' solicitudId w
   \<and> fst (aprobarSolicitud env sesion solicitudId horas (w\<lparr>usuarios_administrativos := admins\<rparr>))
       = fst (aprobarSolicitud env sesion solicitudId horas w)
   \<and> fst (rechazarSolicitud inc sesion solicitudId (w\<lparr>usuarios_administrativos := admins\<rparr>))
       = fst (rechazarSolicitud inc sesion solicitudId w)
   \<and> \<not> fallo_de_autorizacion (fst (aprobarSolicitud env sesion solicitudId horas w))
   \<and> \<not> fallo_de_autorizacion (fst (rechazarSolicitud inc sesion solicitudId w))
   \<and> (solicitudId \<noteq> [] \<and> solicitudId \<noteq> ''undefined'' \<longrightarrow>
        rechazarSolicitud Ninguno sesion solicitudId w =
          (rechazada,
           w\<lparr>solicitudes_horas :=
               map (\<lambda>s. if sol_id s = solicitudId then s\<lparr>estado := ''rechazado''\<rparr> else s)
                 (solicitudes_horas w)\<rparr>))
   \<and> (solicitudId \<noteq> [] \<and> solicitudId \<noteq> ''undefined''
        \<and> filter (\<lambda>s. sol_id s = solicitudId) (solicitudes_horas w) = [sol]
        \<and> estado sol \<noteq> ''aprobado'' \<and> estado sol \<noteq> ''rechazado''
        \<and> filter (\<lambda>e. est_id e = estudiante_id sol) (estudiantes w) = [est]
        \<and> id_becado_interno est = Some id_interno \<and> id_interno \<noteq> []
        \<and> nombre_completo_becado est = Some nombre \<and> trim nombre \<noteq> []
        \<and> cantidad = (case horas of Some h \<Rightarrow> h | None \<Rightarrow> cantidad_horas sol)
        \<and> \<not> isNaN cantidad \<and> \<not> menor_igual_cero cantidad \<longrightarrow>
        aprobarSolicitud sin_incidentes_aprobar sesion solicitudId horas w =
          (aprobada,
           w\<lparr>horas_voluntariados := horas_voluntariados w @
                [\<lparr>hv_id_becado_interno = id_interno,
                  hv_nombre_completo_becado = nombre,
                  hv_fecha_actividad = fecha_actividad sol,
                  hv_nombre_actividad = nombre_actividad sol,
                  hv_cantidad_horas = json_numero cantidad,
                  hv_responsable_encargado = o_bien (responsable_encargado sol) ''N/A'',
                  hv_estado = ''validado''\<rparr>],
             solicitudes_horas :=
               map (\<lambda>s. if sol_id s = solicitudId then s\<lparr>estado := ''aprobado''\<rparr> else s)
                 (solicitudes_horas w)\<rparr>))
   \<and> (estudianteId \<noteq> [] \<and> trim estudianteId \<noteq> []
        \<and> filter (\<lambda>a. ua_auth_user_id a = uid) (usuarios_administrativos w) = []
        \<and> er_getUser env_r = Ninguno \<and> er_admin env_r = Ninguno \<longrightarrow>
        resetearPerfilEstudiante env_r (Some uid) estudianteId w = (sin_permiso_reset, w))
   \<and> (estudianteId \<noteq> [] \<and> trim estudianteId \<noteq> []
        \<and> filter (\<lambda>a. ua_auth_user_id a = uid) (usuarios_administrativos w) = []
        \<and> ed_getUser env_d = Ninguno \<and> ed_admin env_d = Ninguno \<longrightarrow>
        desvincularCuentaEstudiante env_d (Some uid) estudianteId w = (sin_permiso_desvincular, w))"
proof -
  have a: "aprobarSolicitud env sesion solicitudId horas w = aprobarSolicitud env sesion' solicitudId horas w"
    by (simp add: aprobarSolicitud_def)
  have b: "rechazarSolicitud inc sesion solicitudId w = rechazarSolicitud inc sesion' solicitudId w"
    by (simp add: rechazarSolicitud_def)
  have c: "solicitudId \<noteq> [] \<and> solicitudId \<noteq> ''undefined'' \<longrightarrow>
        rechazarSolicitud Ninguno sesion solicitudId w =
          (rechazada,
           w\<lparr>solicitudes_horas :=
               map (\<lambda>s. if sol_id s = solicitudId then s\<lparr>estado := ''rechazado''\<rparr> else s)
                 (solicitudes_horas w)\<rparr>)"
    by (simp add: rechazarSolicitud_def update_donde_def)
  have d: "(solicitudId \<noteq> [] \<and> solicitudId \<noteq> ''undefined''
          \<and> filter (\<lambda>s. sol_id s = solicitudId) (solicitudes_horas w) = [sol]
          \<and> estado sol \<noteq> ''aprobado'' \<and> estado sol \<noteq> ''rechazado''
          \<and> filter (\<lambda>e. est_id e = estudiante_id sol) (estudiantes w) = [est]
          \<and> id_becado_interno est = Some id_interno \<and> id_interno \<noteq> []
          \<and> nombre_completo_becado est = Some nombre \<and> trim nombre \<noteq> []
          \<and> cantidad = (case horas of Some h \<Rightarrow> h | None \<Rightarrow> cantidad_horas sol)
          \<and> \<not> isNaN cantidad \<and> \<not> menor_igual_cero cantidad \<longrightarrow>
          aprobarSolicitud sin_incidentes_aprobar sesion solicitudId horas w =
            (aprobada,
             w\<lparr>horas_voluntariados := horas_voluntariados w @
                  [\<lparr>hv_id_becado_interno = id_interno,
                    hv_nombre_completo_becado = nombre,
                    hv_fecha_actividad = fecha_actividad sol,
                    hv_nombre_actividad = nombre_actividad sol,
                    hv_cantidad_horas = json_numero cantidad,
                    hv_responsable_encargado = o_bien (responsable_encargado sol) ''N/A'',
                    hv_estado = ''validado''\<rparr>],
               solicitudes_horas :=
                 map (\<lambda>s. if sol_id s = solicitudId then s\<lparr>estado := ''aprobado''\<rparr> else s)
                   (solicitudes_horas w)\<rparr>))"
  proof (intro impI)
    assume h: "solicitudId \<noteq> [] \<and> solicitudId \<noteq> ''undefined''
          \<and> filter (\<lambda>s. sol_id s = solicitudId) (solicitudes_horas w) = [sol]
          \<and> estado sol \<noteq> ''aprobado'' \<and> estado sol \<noteq> ''rechazado''
          \<and> filter (\<lambda>e. est_id e = estudiante_id sol) (estudiantes w) = [est]
          \<and> id_becado_interno est = Some id_interno \<and> id_interno \<noteq> []
          \<and> nombre_completo_becado est = Some nombre \<and> trim nombre \<noteq> []
          \<and> cantidad = (case horas of Some h \<Rightarrow> h | None \<Rightarrow> cantidad_horas sol)
          \<and> \<not> isNaN cantidad \<and> \<not> menor_igual_cero cantidad"
    show "aprobarSolicitud sin_incidentes_aprobar sesion solicitudId horas w =
            (aprobada,
             w\<lparr>horas_voluntariados := horas_voluntariados w @
                  [\<lparr>hv_id_becado_interno = id_interno,
                    hv_nombre_completo_becado = nombre,
                    hv_fecha_actividad = fecha_actividad sol,
                    hv_nombre_actividad = nombre_actividad sol,
                    hv_cantidad_horas = json_numero cantidad,
                    hv_responsable_encargado = o_bien (responsable_encargado sol) ''N/A'',
                    hv_estado = ''validado''\<rparr>],
               solicitudes_horas :=
                 map (\<lambda>s. if sol_id s = solicitudId then s\<lparr>estado := ''aprobado''\<rparr> else s)
                   (solicitudes_horas w)\<rparr>)"
    proof -
      from h have p: "solicitudId \<noteq> []" "solicitudId \<noteq> ''undefined''"
        "filter (\<lambda>s. sol_id s = solicitudId) (solicitudes_horas w) = [sol]"
        "estado sol \<noteq> ''aprobado''" "estado sol \<noteq> ''rechazado''"
        "filter (\<lambda>e. est_id e = estudiante_id sol) (estudiantes w) = [est]"
        "id_becado_interno est = Some id_interno" "id_interno \<noteq> []"
        "nombre_completo_becado est = Some nombre" "trim nombre \<noteq> []"
        "cantidad = (case horas of Some h \<Rightarrow> h | None \<Rightarrow> cantidad_horas sol)"
        by blast+
      from h have nn: "\<not> isNaN cantidad" "\<not> menor_igual_cero cantidad" by blast+
      show ?thesis
        by (simp add: aprobarSolicitud_camino_feliz [OF p, of sesion] nn horasData_def)
    qed
  qed
  have e: "estudianteId \<noteq> [] \<and> trim estudianteId \<noteq> []
        \<and> filter (\<lambda>a. ua_auth_user_id a = uid) (usuarios_administrativos w) = []
        \<and> er_getUser env_r = Ninguno \<and> er_admin env_r = Ninguno \<longrightarrow>
        resetearPerfilEstudiante env_r (Some uid) estudianteId w = (sin_permiso_reset, w)"
    using resetearPerfilEstudiante_sin_rol [of estudianteId uid w env_r] by simp
  have f: "estudianteId \<noteq> [] \<and> trim estudianteId \<noteq> []
        \<and> filter (\<lambda>a. ua_auth_user_id a = uid) (usuarios_administrativos w) = []
        \<and> ed_getUser env_d = Ninguno \<and> ed_admin env_d = Ninguno \<longrightarrow>
        desvincularCuentaEstudiante env_d (Some uid) estudianteId w = (sin_permiso_desvincular, w)"
    using desvincularCuentaEstudiante_sin_rol [of estudianteId uid w env_d] by simp
  have g: "fst (aprobarSolicitud env sesion solicitudId horas (w\<lparr>usuarios_administrativos := admins\<rparr>))
       = fst (aprobarSolicitud env sesion solicitudId horas w)"
    "fst (rechazarSolicitud inc sesion solicitudId (w\<lparr>usuarios_administrativos := admins\<rparr>))
       = fst (rechazarSolicitud inc sesion solicitudId w)"
    by (simp_all add: aprobarSolicitud_admins rechazarSolicitud_admins)
  from a b g aprobarSolicitud_autorizacion [of env sesion solicitudId horas w]
    rechazarSolicitud_autorizacion [of inc sesion solicitudId w] c d e f
  show ?thesis by (intro conjI)
qed

theorem solicitudes_sin_verificacion_de_rol_witness:
  "aprobarSolicitud sin_incidentes_aprobar (Some ''uid-jane'') ''sol-1'' (Some (Finito 5)) ej_mundo_activo
     = (aprobada,
        ej_mundo_activo
          \<lparr>horas_voluntariados :=
             [\<lparr>hv_id_becado_interno = ''BDI-042'', hv_nombre_completo_becado = ''Jane Doe'',
               hv_fecha_actividad = ''2025-03-01'', hv_nombre_actividad = ''Jornada de limpieza'',
               hv_cantidad_horas = Some 5, hv_responsable_encargado = ''N/A'', hv_estado = ''validado''\<rparr>],
           solicitudes_horas := [ej_solicitud\<lparr>estado := ''aprobado''\<rparr>]\<rparr>)
   \<and> rechazarSolicitud Ninguno (Some ''uid-jane'') ''sol-1'' ej_mundo_activo
     = (rechazada, ej_mundo_activo\<lparr>solicitudes_horas := [ej_solicitud\<lparr>estado := ''rechazado''\<rparr>]\<rparr>)
   \<and> resetearPerfilEstudiante sin_incidentes_reset (Some ''uid-jane'') ''1'' ej_mundo_activo
     = (sin_permiso_reset, ej_mundo_activo)
   \<and> desvincularCuentaEstudiante (sin_incidentes_desvincular ''tok-2'') (Some ''uid-jane'') ''1'' ej_mundo_activo
     = (sin_permiso_desvincular, ej_mundo_activo)"
proof -
  have rol: "''1'' \<noteq> [] \<and> trim ''1'' \<noteq> []
      \<and> filter (\<lambda>a. ua_auth_user_id a = ''uid-jane'') (usuarios_administrativos ej_mundo_activo) = []
      \<and> er_getUser sin_incidentes_reset = Ninguno \<and> er_admin sin_incidentes_reset = Ninguno"
    "''1'' \<noteq> [] \<and> trim ''1'' \<noteq> []
      \<and> filter (\<lambda>a. ua_auth_user_id a = ''uid-jane'') (usuarios_administrativos ej_mundo_activo) = []
      \<and> ed_getUser (sin_incidentes_desvincular ''tok-2'') = Ninguno
      \<and> ed_admin (sin_incidentes_desvincular ''tok-2'') = Ninguno"
    "''sol-1'' \<noteq> [] \<and> ''sol-1'' \<noteq> ''undefined''"
    by (simp_all add: ej_mundo_activo_def ej_admin_def sin_incidentes_reset_def
          sin_incidentes_desvincular_def trim_def es_espacio_def)
  have pendiente: "''sol-1'' \<noteq> [] \<and> ''sol-1'' \<noteq> ''undefined''
      \<and> filter (\<lambda>s. sol_id s = ''sol-1'') (solicitudes_horas ej_mundo_activo) = [ej_solicitud]
      \<and> estado ej_solicitud \<noteq> ''aprobado'' \<and> estado ej_solicitud \<noteq> ''rechazado''
      \<and> filter (\<lambda>e. est_id e = estudiante_id ej_solicitud) (estudiantes ej_mundo_activo) = [ej_jane_activa]
      \<and> id_becado_interno ej_jane_activa = Some ''BDI-042'' \<and> ''BDI-042'' \<noteq> []
      \<and> nombre_completo_becado ej_jane_activa = Some ''Jane Doe'' \<and> trim ''Jane Doe'' \<noteq> []
      \<and> Finito 5 = (case Some (Finito 5) of Some h \<Rightarrow> h | None \<Rightarrow> cantidad_horas ej_solicitud)
      \<and> \<not> isNaN (Finito 5) \<and> \<not> menor_igual_cero (Finito 5)"
    by (simp add: ej_mundo_activo_def ej_solicitud_def trim_def es_espacio_def ej_jane_activa_def
          ej_jane_def fila_nueva_def)
  have campos: "map (\<lambda>s. if sol_id s = ''sol-1'' then s\<lparr>estado := ''rechazado''\<rparr> else s)
        (solicitudes_horas ej_mundo_activo) = [ej_solicitud\<lparr>estado := ''rechazado''\<rparr>]"
    "map (\<lambda>s. if sol_id s = ''sol-1'' then s\<lparr>estado := ''aprobado''\<rparr> else s)
        (solicitudes_horas ej_mundo_activo) = [ej_solicitud\<lparr>estado := ''aprobado''\<rparr>]"
    "horas_voluntariados ej_mundo_activo = []"
    "fecha_actividad ej_solicitud = ''2025-03-01''"
    "nombre_actividad ej_solicitud = ''Jornada de limpieza''"
    "o_bien (responsable_encargado ej_solicitud) ''N/A'' = ''N/A''"
    by (simp_all add: ej_mundo_activo_def ej_solicitud_def o_bien_def)
  note t = solicitudes_sin_verificacion_de_rol [of sin_incidentes_aprobar "Some ''uid-jane''" "''sol-1''"
        "Some (Finito 5)" ej_mundo_activo "Some ''uid-admin''" Ninguno "[]"
        ej_solicitud ej_jane_activa "''BDI-042''" "''Jane Doe''" "Finito 5"
        "''1''" "''uid-jane''" sin_incidentes_reset "sin_incidentes_desvincular ''tok-2''"]
  from t pendiente
  have ap: "aprobarSolicitud sin_incidentes_aprobar (Some ''uid-jane'') ''sol-1'' (Some (Finito 5)) ej_mundo_activo =
          (aprobada,
           ej_mundo_activo\<lparr>horas_voluntariados := horas_voluntariados ej_mundo_activo @
                [\<lparr>hv_id_becado_interno = ''BDI-042'',
                  hv_nombre_completo_becado = ''Jane Doe'',
                  hv_fecha_actividad = fecha_actividad ej_solicitud,
                  hv_nombre_actividad = nombre_actividad ej_solicitud,
                  hv_cantidad_horas = json_numero (Finito 5),
                  hv_responsable_encargado = o_bien (responsable_encargado ej_solicitud) ''N/A'',
                  hv_estado = ''validado''\<rparr>],
             solicitudes_horas :=
               map (\<lambda>s. if sol_id s = ''sol-1'' then s\<lparr>estado := ''aprobado''\<rparr> else s)
                 (solicitudes_horas ej_mundo_activo)\<rparr>)"
    by blast
  from t rol(3)
  have re: "rechazarSolicitud Ninguno (Some ''uid-jane'') ''sol-1'' ej_mundo_activo =
          (rechazada,
           ej_mundo_activo\<lparr>solicitudes_horas :=
               map (\<lambda>s. if sol_id s = ''sol-1'' then s\<lparr>estado := ''rechazado''\<rparr> else s)
                 (solicitudes_horas ej_mundo_activo)\<rparr>)"
    by blast
  from t rol(1)
  have rs: "resetearPerfilEstudiante sin_incidentes_reset (Some ''uid-jane'') ''1'' ej_mundo_activo
     = (sin_permiso_reset, ej_mundo_activo)"
    by blast
  from t rol(2)
  have de: "desvincularCuentaEstudiante (sin_incidentes_desvincular ''tok-2'') (Some ''uid-jane'') ''1'' ej_mundo_activo
     = (sin_permiso_desvincular, ej_mundo_activo)"
    by blast
  show ?thesis
    by (simp add: ap re rs de campos)
qed

subsection \<open>Student administration\<close>

lemma maybeSingle_una:
  "maybeSingle inc filas = Respuesta (Some f) None \<Longrightarrow> filas = [f]"
  by (auto simp: maybeSingle_def split: incidente.splits list.splits if_splits)

lemma maybeSingle_responde:
  "maybeSingle inc filas = Respuesta (Some f) None \<Longrightarrow> inc = Ninguno"
  by (auto simp: maybeSingle_def split: incidente.splits)





text \<open>
  After the unlinking update, the new token selects the unlinked row and no other,
  when ids are unique and no row carried that token before.
\<close>

lemma datosDesvinculacion_sin_fila:
  assumes "filter (\<lambda>e. est_id e = i) xs = []" and "filter (\<lambda>e. onboarding_token e = Some t) xs = []"
  shows "filter (\<lambda>e. onboarding_token e = Some t)
           (map (\<lambda>e. if est_id e = i then datosDesvinculacion t e else e) xs) = []"
  using assms by (induction xs) (auto split: if_splits)

lemma datosDesvinculacion_token_nuevo:
  assumes "filter (\<lambda>e. est_id e = i) xs = [est]" and "filter (\<lambda>e. onboarding_token e = Some t) xs = []"
  shows "filter (\<lambda>e. onboarding_token e = Some t)
           (map (\<lambda>e. if est_id e = i then datosDesvinculacion t e else e) xs) = [datosDesvinculacion t est]"
  using assms
proof (induction xs)
  case Nil
  then show ?case by simp
next
  case (Cons x xs)
  show ?case
  proof (cases "est_id x = i")
    case True
    with Cons.prems have x: "x = est" and resto: "filter (\<lambda>e. est_id e = i) xs = []"
      and tok: "filter (\<lambda>e. onboarding_token e = Some t) xs = []"
      by (auto split: if_splits)
    from datosDesvinculacion_sin_fila [OF resto tok] True x show ?thesis
      by (simp add: datosDesvinculacion_def)
  next
    case False
    with Cons.prems have "filter (\<lambda>e. est_id e = i) xs = [est]"
      and "filter (\<lambda>e. onboarding_token e = Some t) xs = []" and "onboarding_token x \<noteq> Some t"
      by (auto split: if_splits)
    with Cons.IH False show ?thesis by simp
  qed
qed

lemma validarToken_fila_unica:
  assumes "filter (\<lambda>e. onboarding_token e = Some t) (estudiantes w) = [fila]"
  shows "validarToken Ninguno t w =
     Retorna (if ha_completado_onboarding fila then token_utilizado
              else if falsy (nombre_completo_becado fila) \<or> falsy (correo_personal fila) then faltan_datos
              else \<lparr>success = True, message = [],
                     estudiante_v = Some (o_bien (nombre_completo_becado fila) [],
                                          o_bien (correo_personal fila) [])\<rparr>)"
  using assms by (simp add: validarToken_def single_def token_utilizado_def faltan_datos_def)

lemma desvincularCuentaEstudiante_paso6_casos:
  assumes "auth_user_id est = Some cred" "cred \<noteq> []"
  shows "desvincularCuentaEstudiante_paso6 env est w =
     (case ed_deleteUser env of
        Ninguno \<Rightarrow> (desvinculada est, w\<lparr>auth_usuarios := filter (\<lambda>u. au_id u \<noteq> cred) (auth_usuarios w)\<rparr>)
      | Devuelve e \<Rightarrow> (desvinculado_sin_borrar (o_bien (Some (pg_message e)) ''Error desconocido''), w)
      | Lanza m \<Rightarrow> (desvinculado_sin_borrar_inesperado m, w))"
  using assms
  by (simp add: desvincularCuentaEstudiante_paso6_def falsy_def o_bien_def deleteUser_def split: incidente.splits)

text \<open>Which results of the unlinking carry the partial wording.\<close>

lemma parcial_simps [simp]:
  "mensaje_parcial (desvinculado_sin_borrar d)"
  "mensaje_parcial (desvinculado_sin_borrar_inesperado m)"
  "\<not> mensaje_parcial (desvinculada est)"
  "\<not> mensaje_parcial (error_inesperado_con m)"
  "\<not> mensaje_parcial estudiante_no_encontrado"
  "\<not> mensaje_parcial registro_no_encontrado"
  "\<not> mensaje_parcial sin_usuario"
  "\<not> mensaje_parcial sin_permiso_desvincular"
  "\<not> mensaje_parcial \<lparr>success = False, message = ''ID de estudiante invalido.''\<rparr>"
  "\<not> mensaje_parcial \<lparr>success = False, message = mensaje_updateError que
        ''Error al desvincular el estudiante en la base de datos: '' updateError\<rparr>"
  "\<not> success (error_inesperado_con m)"
  "\<not> success (desvinculado_sin_borrar d)"
  "\<not> success (desvinculado_sin_borrar_inesperado m)"
  "success (desvinculada est)"
  by (simp_all add: mensaje_parcial_def desvinculado_sin_borrar_def desvinculado_sin_borrar_inesperado_def
        desvinculada_def error_inesperado_con_def estudiante_no_encontrado_def registro_no_encontrado_def
        sin_usuario_def sin_permiso_desvincular_def mensaje_updateError_def)

lemma desvincularCuentaEstudiante_paso4_casos:
  assumes "ed_estudiante env = Ninguno"
    and "filter (ed_or env (filtro_or estudianteId)) (estudiantes w) = [est]"
    and "filter (\<lambda>e. est_id e = est_id est) (estudiantes w) = [est]"
  shows "desvincularCuentaEstudiante_paso4 env estudianteId w =
     (case ed_update env of
        Ninguno \<Rightarrow>
          desvincularCuentaEstudiante_paso6 env est
            (w\<lparr>estudiantes :=
                 map (\<lambda>e. if est_id e = est_id est then datosDesvinculacion (ed_randomUUID env) e else e)
                   (estudiantes w)\<rparr>)
      | Devuelve e \<Rightarrow>
          (\<lparr>success = False,
            message = mensaje_updateError ''registro''
              ''Error al desvincular el estudiante en la base de datos: '' e\<rparr>, w)
      | Lanza m \<Rightarrow> (error_inesperado_con m, w))"
  using assms
  by (simp add: desvincularCuentaEstudiante_paso4_def maybeSingle_def update_donde_def split: incidente.splits)

lemma desvincularCuentaEstudiante_admin:
  assumes "estudianteId \<noteq> []" "trim estudianteId \<noteq> []"
    and "filter (\<lambda>a. ua_auth_user_id a = uid) (usuarios_administrativos w) = [fila_admin]"
    and "ed_getUser env = Ninguno" "ed_admin env = Ninguno"
  shows "desvincularCuentaEstudiante env (Some uid) estudianteId w =
           desvincularCuentaEstudiante_paso4 env estudianteId w"
  using assms
  by (simp add: desvincularCuentaEstudiante_def getUser_def consulta_admin_def maybeSingle_def)

lemma update_cambia:
  assumes "x \<in> set xs" and "P x" and "f x \<noteq> x"
  shows "map (\<lambda>e. if P e then f e else e) xs \<noteq> xs"
  using assms by (induction xs) auto

lemma desvincularCuentaEstudiante_paso6_parcial:
  assumes "mensaje_parcial (fst (desvincularCuentaEstudiante_paso6 env est w))"
  shows "snd (desvincularCuentaEstudiante_paso6 env est w) = w
       \<and> \<not> success (fst (desvincularCuentaEstudiante_paso6 env est w))
       \<and> \<not> falsy (auth_user_id est) \<and> ed_deleteUser env \<noteq> Ninguno"
  using assms
  by (cases "ed_deleteUser env")
     (auto simp: desvincularCuentaEstudiante_paso6_def deleteUser_def split: if_splits)

lemma desvincularCuentaEstudiante_paso4_parcial:
  assumes "mensaje_parcial (fst (desvincularCuentaEstudiante_paso4 env estudianteId w))"
  shows "\<not> success (fst (desvincularCuentaEstudiante_paso4 env estudianteId w))
       \<and> (\<exists>est::estudiante.
             filter (ed_or env (filtro_or estudianteId)) (estudiantes w) = [est]
           \<and> \<not> falsy (auth_user_id est)
           \<and> ed_estudiante env = Ninguno \<and> ed_update env = Ninguno \<and> ed_deleteUser env \<noteq> Ninguno
           \<and> snd (desvincularCuentaEstudiante_paso4 env estudianteId w) =
               w\<lparr>estudiantes :=
                   map (\<lambda>e. if est_id e = est_id est then datosDesvinculacion (ed_randomUUID env) e else e)
                     (estudiantes w)\<rparr>)
       \<and> estudiantes (snd (desvincularCuentaEstudiante_paso4 env estudianteId w)) \<noteq> estudiantes w
       \<and> auth_usuarios (snd (desvincularCuentaEstudiante_paso4 env estudianteId w)) = auth_usuarios w"
proof -
  let ?filas = "filter (ed_or env (filtro_or estudianteId)) (estudiantes w)"
  from assms obtain est where
    una: "maybeSingle (ed_estudiante env) ?filas = Respuesta (Some est) None"
    by (auto simp: desvincularCuentaEstudiante_paso4_def split: respuesta.splits option.splits)
  let ?w = "w\<lparr>estudiantes :=
                 map (\<lambda>e. if est_id e = est_id est then datosDesvinculacion (ed_randomUUID env) e else e)
                   (estudiantes w)\<rparr>"
  have busca: "ed_estudiante env = Ninguno" by (rule maybeSingle_responde [OF una])
  have upd: "ed_update env = Ninguno"
    using assms una
    by (cases "ed_update env") (auto simp: desvincularCuentaEstudiante_paso4_def update_donde_def)
  have p6: "desvincularCuentaEstudiante_paso4 env estudianteId w = desvincularCuentaEstudiante_paso6 env est ?w"
    using assms una upd
    by (auto simp: desvincularCuentaEstudiante_paso4_def update_donde_def split: if_splits)
  with desvincularCuentaEstudiante_paso6_parcial [of env est ?w] assms
  have a: "\<not> success (fst (desvincularCuentaEstudiante_paso4 env estudianteId w))"
    and b: "snd (desvincularCuentaEstudiante_paso4 env estudianteId w) = ?w"
    and c: "\<not> falsy (auth_user_id est)" and d: "ed_deleteUser env \<noteq> Ninguno"
    by simp_all
  have una': "?filas = [est]" by (rule maybeSingle_una [OF una])
  then have "est \<in> set ?filas" by simp
  then have en: "est \<in> set (estudiantes w)" by simp
  have "datosDesvinculacion (ed_randomUUID env) est \<noteq> est"
  proof
    assume "datosDesvinculacion (ed_randomUUID env) est = est"
    then have "auth_user_id (datosDesvinculacion (ed_randomUUID env) est) = auth_user_id est" by simp
    with c show False by (simp add: datosDesvinculacion_def falsy_def)
  qed
  with en have "map (\<lambda>e. if est_id e = est_id est then datosDesvinculacion (ed_randomUUID env) e else e)
                  (estudiantes w) \<noteq> estudiantes w"
    by (intro update_cambia [of est]) simp_all
  with b have e: "estudiantes (snd (desvincularCuentaEstudiante_paso4 env estudianteId w)) \<noteq> estudiantes w" by simp
  from b have f: "auth_usuarios (snd (desvincularCuentaEstudiante_paso4 env estudianteId w)) = auth_usuarios w" by simp
  have "filter (ed_or env (filtro_or estudianteId)) (estudiantes w) = [est]
           \<and> \<not> falsy (auth_user_id est)
           \<and> ed_estudiante env = Ninguno \<and> ed_update env = Ninguno \<and> ed_deleteUser env \<noteq> Ninguno
           \<and> snd (desvincularCuentaEstudiante_paso4 env estudianteId w) =
               w\<lparr>estudiantes :=
                   map (\<lambda>e. if est_id e = est_id est then datosDesvinculacion (ed_randomUUID env) e else e)
                     (estudiantes w)\<rparr>"
    using una' c busca upd d b by (intro conjI)
  then have g: "\<exists>est::estudiante.
             filter (ed_or env (filtro_or estudianteId)) (estudiantes w) = [est]
           \<and> \<not> falsy (auth_user_id est)
           \<and> ed_estudiante env = Ninguno \<and> ed_update env = Ninguno \<and> ed_deleteUser env \<noteq> Ninguno
           \<and> snd (desvincularCuentaEstudiante_paso4 env estudianteId w) =
               w\<lparr>estudiantes :=
                   map (\<lambda>e. if est_id e = est_id est then datosDesvinculacion (ed_randomUUID env) e else e)
                     (estudiantes w)\<rparr>"
    by (rule exI [of _ est])
  from a g e f show ?thesis by (intro conjI)
qed

lemma desvincularCuentaEstudiante_parcial_admin:
  assumes "mensaje_parcial (fst (desvincularCuentaEstudiante env sesion estudianteId w))"
  shows "estudianteId \<noteq> [] \<and> trim estudianteId \<noteq> []
       \<and> ed_getUser env = Ninguno \<and> ed_admin env = Ninguno
       \<and> (\<exists>(uid::string) (fila::admin_fila).
             sesion = Some uid
           \<and> filter (\<lambda>a. ua_auth_user_id a = uid) (usuarios_administrativos w) = [fila])
       \<and> desvincularCuentaEstudiante env sesion estudianteId w =
           desvincularCuentaEstudiante_paso4 env estudianteId w"
proof -
  have id: "estudianteId \<noteq> []" "trim estudianteId \<noteq> []"
    using assms by (auto simp: desvincularCuentaEstudiante_def)
  have gu: "ed_getUser env = Ninguno"
    using assms id
    by (cases "ed_getUser env") (auto simp: desvincularCuentaEstudiante_def getUser_def)
  from assms id gu obtain uid where uid: "sesion = Some uid"
    by (cases sesion) (auto simp: desvincularCuentaEstudiante_def getUser_def)
  have ad: "ed_admin env = Ninguno"
    using assms id gu uid
    by (cases "ed_admin env")
       (auto simp: desvincularCuentaEstudiante_def getUser_def consulta_admin_def maybeSingle_def)
  from assms id gu uid ad obtain fila where
    una: "maybeSingle (ed_admin env) (filter (\<lambda>a. ua_auth_user_id a = uid) (usuarios_administrativos w))
            = Respuesta (Some fila) None"
    by (cases "maybeSingle (ed_admin env) (filter (\<lambda>a. ua_auth_user_id a = uid) (usuarios_administrativos w))")
       (auto simp: desvincularCuentaEstudiante_def getUser_def consulta_admin_def split: if_splits)
  have fila: "filter (\<lambda>a. ua_auth_user_id a = uid) (usuarios_administrativos w) = [fila]"
    by (rule maybeSingle_una [OF una])
  have p4: "desvincularCuentaEstudiante env sesion estudianteId w =
           desvincularCuentaEstudiante_paso4 env estudianteId w"
    using id gu uid una by (simp add: desvincularCuentaEstudiante_def getUser_def consulta_admin_def)
  from uid fila have "sesion = Some uid
           \<and> filter (\<lambda>a. ua_auth_user_id a = uid) (usuarios_administrativos w) = [fila]"
    by (intro conjI)
  then have "\<exists>fila::admin_fila. sesion = Some uid
           \<and> filter (\<lambda>a. ua_auth_user_id a = uid) (usuarios_administrativos w) = [fila]"
    by (rule exI [of _ fila])
  then have ex: "\<exists>(uid::string) (fila::admin_fila). sesion = Some uid
           \<and> filter (\<lambda>a. ua_auth_user_id a = uid) (usuarios_administrativos w) = [fila]"
    by (rule exI [of _ uid])
  from id gu ad ex p4 show ?thesis by (intro conjI)
qed

lemma desvincularCuentaEstudiante_parcial:
  assumes "mensaje_parcial (fst (desvincularCuentaEstudiante env sesion estudianteId w))"
  shows "\<not> success (fst (desvincularCuentaEstudiante env sesion estudianteId w))
       \<and> estudianteId \<noteq> [] \<and> trim estudianteId \<noteq> []
       \<and> ed_getUser env = Ninguno \<and> ed_admin env = Ninguno
       \<and> (\<exists>(uid::string) (fila::admin_fila).
             sesion = Some uid
           \<and> filter (\<lambda>a. ua_auth_user_id a = uid) (usuarios_administrativos w) = [fila])
       \<and> (\<exists>est::estudiante.
             filter (ed_or env (filtro_or estudianteId)) (estudiantes w) = [est]
           \<and> \<not> falsy (auth_user_id est)
           \<and> ed_estudiante env = Ninguno \<and> ed_update env = Ninguno \<and> ed_deleteUser env \<noteq> Ninguno
           \<and> snd (desvincularCuentaEstudiante env sesion estudianteId w) =
               w\<lparr>estudiantes :=
                   map (\<lambda>e. if est_id e = est_id est then datosDesvinculacion (ed_randomUUID env) e else e)
                     (estudiantes w)\<rparr>)
       \<and> estudiantes (snd (desvincularCuentaEstudiante env sesion estudianteId w)) \<noteq> estudiantes w
       \<and> auth_usuarios (snd (desvincularCuentaEstudiante env sesion estudianteId w)) = auth_usuarios w"
proof -
  note adm = desvincularCuentaEstudiante_parcial_admin [OF assms]
  note a = adm [THEN conjunct1]
  note b = adm [THEN conjunct2, THEN conjunct1]
  note c = adm [THEN conjunct2, THEN conjunct2, THEN conjunct1]
  note d = adm [THEN conjunct2, THEN conjunct2, THEN conjunct2, THEN conjunct1]
  note e = adm [THEN conjunct2, THEN conjunct2, THEN conjunct2, THEN conjunct2, THEN conjunct1]
  note p4 = adm [THEN conjunct2, THEN conjunct2, THEN conjunct2, THEN conjunct2, THEN conjunct2]
  from assms have mp: "mensaje_parcial (fst (desvincularCuentaEstudiante_paso4 env estudianteId w))"
    by (simp only: p4)
  note resto = desvincularCuentaEstudiante_paso4_parcial [OF mp]
  note f = resto [THEN conjunct1]
  note g = resto [THEN conjunct2, THEN conjunct1]
  note h = resto [THEN conjunct2, THEN conjunct2, THEN conjunct1]
  note i = resto [THEN conjunct2, THEN conjunct2, THEN conjunct2]
  from f a b c d e g h i show ?thesis
    unfolding p4 by (intro conjI)
qed

text \<open>
  C9, amended. An administrator unlinks a student who has a linked credential; the
  lookups answer, the lookup of the student selects that row alone, the student's id
  is unique and the drawn token is carried by no row.
  If the row update fails, the result is a failure without the partial wording and
  nothing changed: the identity is not deleted. If the row update succeeds, the row has
  \<open>auth_user_id\<close> null, \<open>ha_completado_onboarding\<close> false and the new token, and only
  then is the identity deleted; if that deletion fails, the result has
  \<open>success = false\<close> with the partial wording and the identity is still in the
  credential store. \<open>validarToken\<close> with the new token then answers valid exactly when
  the row has a name and a personal e-mail, and with ``Faltan datos requeridos en el
  registro del estudiante'' otherwise.
  No other exit of the action gives the partial wording: whoever calls, with whatever
  id, on whatever stores, a result with the partial wording is not a success and comes
  only to a caller with an administrator row, after the lookup selected one row with a
  linked credential, the update answered and the deletion did not; that row was
  unlinked, so \<open>estudiantes\<close> is no longer what it was, and the credential store is what
  it was.
\<close>

theorem desvincularCuentaEstudiante_orden_y_parcial:
  assumes "estudianteId \<noteq> []" "trim estudianteId \<noteq> []"
    and "filter (\<lambda>a. ua_auth_user_id a = uid) (usuarios_administrativos w) = [fila_admin]"
    and "ed_getUser env = Ninguno" "ed_admin env = Ninguno" "ed_estudiante env = Ninguno"
    and "filter (ed_or env (filtro_or estudianteId)) (estudiantes w) = [est]"
    and "filter (\<lambda>e. est_id e = est_id est) (estudiantes w) = [est]"
    and "auth_user_id est = Some cred" "cred \<noteq> []"
    and "filter (\<lambda>e. onboarding_token e = Some (ed_randomUUID env)) (estudiantes w) = []"
    and "desvincularCuentaEstudiante env (Some uid) estudianteId w = (r, w1)"
  shows "(ed_update env \<noteq> Ninguno \<longrightarrow> \<not> success r \<and> \<not> mensaje_parcial r \<and> w1 = w)
       \<and> (ed_update env = Ninguno \<longrightarrow>
            estudiantes w1 =
              map (\<lambda>e. if est_id e = est_id est then datosDesvinculacion (ed_randomUUID env) e else e)
                (estudiantes w)
          \<and> (ed_deleteUser env = Ninguno \<longrightarrow>
                r = desvinculada est \<and> \<not> mensaje_parcial r
              \<and> auth_usuarios w1 = filter (\<lambda>u. au_id u \<noteq> cred) (auth_usuarios w))
          \<and> (ed_deleteUser env \<noteq> Ninguno \<longrightarrow>
                \<not> success r \<and> mensaje_parcial r \<and> auth_usuarios w1 = auth_usuarios w)
          \<and> validarToken Ninguno (ed_randomUUID env) w1 =
              Retorna (if falsy (nombre_completo_becado est) \<or> falsy (correo_personal est) then faltan_datos
                       else \<lparr>success = True, message = [],
                              estudiante_v = Some (o_bien (nombre_completo_becado est) [],
                                                   o_bien (correo_personal est) [])\<rparr>))
       \<and> (mensaje_parcial (fst (desvincularCuentaEstudiante env' sesion' estudianteId' w')) \<longrightarrow>
            \<not> success (fst (desvincularCuentaEstudiante env' sesion' estudianteId' w'))
            \<and> estudianteId' \<noteq> [] \<and> trim estudianteId' \<noteq> []
            \<and> ed_getUser env' = Ninguno \<and> ed_admin env' = Ninguno
            \<and> (\<exists>(uid::string) (fila::admin_fila).
                  sesion' = Some uid
                \<and> filter (\<lambda>a. ua_auth_user_id a = uid) (usuarios_administrativos w') = [fila])
            \<and> (\<exists>est::estudiante.
                  filter (ed_or env' (filtro_or estudianteId')) (estudiantes w') = [est]
                \<and> \<not> falsy (auth_user_id est)
                \<and> ed_estudiante env' = Ninguno \<and> ed_update env' = Ninguno \<and> ed_deleteUser env' \<noteq> Ninguno
                \<and> snd (desvincularCuentaEstudiante env' sesion' estudianteId' w') =
                    w'\<lparr>estudiantes :=
                        map (\<lambda>e. if est_id e = est_id est then datosDesvinculacion (ed_randomUUID env') e else e)
                          (estudiantes w')\<rparr>)
            \<and> estudiantes (snd (desvincularCuentaEstudiante env' sesion' estudianteId' w')) \<noteq> estudiantes w'
            \<and> auth_usuarios (snd (desvincularCuentaEstudiante env' sesion' estudianteId' w')) = auth_usuarios w')"
proof -
  let ?t = "ed_randomUUID env"
  let ?filas = "map (\<lambda>e. if est_id e = est_id est then datosDesvinculacion ?t e else e) (estudiantes w)"
  have r: "(r, w1) = (case ed_update env of
        Ninguno \<Rightarrow> desvincularCuentaEstudiante_paso6 env est (w\<lparr>estudiantes := ?filas\<rparr>)
      | Devuelve e \<Rightarrow>
          (\<lparr>success = False,
            message = mensaje_updateError ''registro''
              ''Error al desvincular el estudiante en la base de datos: '' e\<rparr>, w)
      | Lanza m \<Rightarrow> (error_inesperado_con m, w))"
    using desvincularCuentaEstudiante_admin [OF assms(1-5)]
      desvincularCuentaEstudiante_paso4_casos [OF assms(6-8)] assms(12) by simp
  have falla: "ed_update env \<noteq> Ninguno \<longrightarrow> \<not> success r \<and> \<not> mensaje_parcial r \<and> w1 = w"
    using r by (cases "ed_update env") auto
  have p6: "ed_update env = Ninguno \<longrightarrow>
      (r, w1) = (case ed_deleteUser env of
        Ninguno \<Rightarrow> (desvinculada est,
           w\<lparr>estudiantes := ?filas, auth_usuarios := filter (\<lambda>u. au_id u \<noteq> cred) (auth_usuarios w)\<rparr>)
      | Devuelve e \<Rightarrow> (desvinculado_sin_borrar (o_bien (Some (pg_message e)) ''Error desconocido''),
           w\<lparr>estudiantes := ?filas\<rparr>)
      | Lanza m \<Rightarrow> (desvinculado_sin_borrar_inesperado m, w\<lparr>estudiantes := ?filas\<rparr>))"
    using r desvincularCuentaEstudiante_paso6_casos [OF assms(9,10), of env "w\<lparr>estudiantes := ?filas\<rparr>"]
    by (auto split: incidente.splits)
  have filas: "ed_update env = Ninguno \<longrightarrow> estudiantes w1 = ?filas"
    using p6 by (cases "ed_deleteUser env") auto
  have borrado: "ed_update env = Ninguno \<longrightarrow>
      (ed_deleteUser env = Ninguno \<longrightarrow>
          r = desvinculada est \<and> \<not> mensaje_parcial r
        \<and> auth_usuarios w1 = filter (\<lambda>u. au_id u \<noteq> cred) (auth_usuarios w))
    \<and> (ed_deleteUser env \<noteq> Ninguno \<longrightarrow>
          \<not> success r \<and> mensaje_parcial r \<and> auth_usuarios w1 = auth_usuarios w)"
    using p6 by (cases "ed_deleteUser env") auto
  have token: "ed_update env = Ninguno \<longrightarrow>
      filter (\<lambda>e. onboarding_token e = Some ?t) (estudiantes w1) = [datosDesvinculacion ?t est]"
    using filas datosDesvinculacion_token_nuevo [OF assms(8,11)] by simp
  have valida: "ed_update env = Ninguno \<longrightarrow>
      validarToken Ninguno ?t w1 =
        Retorna (if falsy (nombre_completo_becado est) \<or> falsy (correo_personal est) then faltan_datos
                 else \<lparr>success = True, message = [],
                        estudiante_v = Some (o_bien (nombre_completo_becado est) [],
                                             o_bien (correo_personal est) [])\<rparr>)"
  proof
    assume "ed_update env = Ninguno"
    with token have "filter (\<lambda>e. onboarding_token e = Some ?t) (estudiantes w1) = [datosDesvinculacion ?t est]"
      by simp
    from validarToken_fila_unica [OF this] show "validarToken Ninguno ?t w1 =
        Retorna (if falsy (nombre_completo_becado est) \<or> falsy (correo_personal est) then faltan_datos
                 else \<lparr>success = True, message = [],
                        estudiante_v = Some (o_bien (nombre_completo_becado est) [],
                                             o_bien (correo_personal est) [])\<rparr>)"
      by (simp add: datosDesvinculacion_def)
  qed
  have parcial: "mensaje_parcial (fst (desvincularCuentaEstudiante env' sesion' estudianteId' w')) \<longrightarrow>
            \<not> success (fst (desvincularCuentaEstudiante env' sesion' estudianteId' w'))
            \<and> estudianteId' \<noteq> [] \<and> trim estudianteId' \<noteq> []
            \<and> ed_getUser env' = Ninguno \<and> ed_admin env' = Ninguno
            \<and> (\<exists>(uid::string) (fila::admin_fila).
                  sesion' = Some uid
                \<and> filter (\<lambda>a. ua_auth_user_id a = uid) (usuarios_administrativos w') = [fila])
            \<and> (\<exists>est::estudiante.
                  filter (ed_or env' (filtro_or estudianteId')) (estudiantes w') = [est]
                \<and> \<not> falsy (auth_user_id est)
                \<and> ed_estudiante env' = Ninguno \<and> ed_update env' = Ninguno \<and> ed_deleteUser env' \<noteq> Ninguno
                \<and> snd (desvincularCuentaEstudiante env' sesion' estudianteId' w') =
                    w'\<lparr>estudiantes :=
                        map (\<lambda>e. if est_id e = est_id est then datosDesvinculacion (ed_randomUUID env') e else e)
                          (estudiantes w')\<rparr>)
            \<and> estudiantes (snd (desvincularCuentaEstudiante env' sesion' estudianteId' w')) \<noteq> estudiantes w'
            \<and> auth_usuarios (snd (desvincularCuentaEstudiante env' sesion' estudianteId' w')) = auth_usuarios w'"
    using desvincularCuentaEstudiante_parcial [of env' sesion' estudianteId' w'] by (rule impI)
  have exito: "ed_update env = Ninguno \<longrightarrow>
            estudiantes w1 =
              map (\<lambda>e. if est_id e = est_id est then datosDesvinculacion (ed_randomUUID env) e else e)
                (estudiantes w)
          \<and> (ed_deleteUser env = Ninguno \<longrightarrow>
                r = desvinculada est \<and> \<not> mensaje_parcial r
              \<and> auth_usuarios w1 = filter (\<lambda>u. au_id u \<noteq> cred) (auth_usuarios w))
          \<and> (ed_deleteUser env \<noteq> Ninguno \<longrightarrow>
                \<not> success r \<and> mensaje_parcial r \<and> auth_usuarios w1 = auth_usuarios w)
          \<and> validarToken Ninguno (ed_randomUUID env) w1 =
              Retorna (if falsy (nombre_completo_becado est) \<or> falsy (correo_personal est) then faltan_datos
                       else \<lparr>success = True, message = [],
                              estudiante_v = Some (o_bien (nombre_completo_becado est) [],
                                                   o_bien (correo_personal est) [])\<rparr>)"
    using filas borrado valida by blast
  from falla exito parcial show ?thesis by (intro conjI)
qed

lemmas desvincular_defs =
  desvincularCuentaEstudiante_def desvincularCuentaEstudiante_paso4_def desvincularCuentaEstudiante_paso6_def
  getUser_def consulta_admin_def maybeSingle_def update_donde_def deleteUser_def falsy_def o_bien_def
  ej_borrado_falla_def sin_incidentes_desvincular_def trim_def es_espacio_def ej_admin_def fila_nueva_def
  or_por_comas_def condicion_def filtro_or_def

text \<open>
  C9, as the claim states it, fails for a linked student whose row has no name: the
  unlinking reports the partial failure, and the new token does not validate.
\<close>

theorem desvincularCuentaEstudiante_sin_nombre_contraejemplo:
  "auth_user_id ej_sin_nombre = Some ''uid-sam''
   \<and> desvincularCuentaEstudiante ej_borrado_falla (Some ''uid-admin'') ''2'' ej_mundo_sin_nombre =
       (desvinculado_sin_borrar ''Database error deleting user'',
        ej_mundo_sin_nombre\<lparr>estudiantes := [datosDesvinculacion ''tok-2'' ej_sin_nombre]\<rparr>)
   \<and> validarToken Ninguno ''tok-2''
        (ej_mundo_sin_nombre\<lparr>estudiantes := [datosDesvinculacion ''tok-2'' ej_sin_nombre]\<rparr>)
       = Retorna faltan_datos
   \<and> \<not> success faltan_datos"
  by (simp add: desvincular_defs ej_mundo_sin_nombre_def ej_sin_nombre_def datosDesvinculacion_def
        validarToken_def single_def faltan_datos_def)

theorem desvincularCuentaEstudiante_orden_y_parcial_witness:
  "desvincularCuentaEstudiante ej_borrado_falla (Some ''uid-admin'') ''1'' ej_mundo_activo =
       (desvinculado_sin_borrar ''Database error deleting user'',
        ej_mundo_activo\<lparr>estudiantes := [datosDesvinculacion ''tok-2'' ej_jane_activa]\<rparr>)
   \<and> mensaje_parcial (desvinculado_sin_borrar ''Database error deleting user'')
   \<and> auth_usuarios (ej_mundo_activo\<lparr>estudiantes := [datosDesvinculacion ''tok-2'' ej_jane_activa]\<rparr>)
       = [\<lparr>au_id = ''uid-jane'', au_email = ''jane@example.com'', au_password = ''LongEnough1''\<rparr>]
   \<and> validarToken Ninguno ''tok-2''
        (ej_mundo_activo\<lparr>estudiantes := [datosDesvinculacion ''tok-2'' ej_jane_activa]\<rparr>)
       = Retorna \<lparr>success = True, message = [], estudiante_v = Some (''Jane Doe'', ''jane@example.com'')\<rparr>"
proof -
  have r: "desvincularCuentaEstudiante ej_borrado_falla (Some ''uid-admin'') ''1'' ej_mundo_activo =
       (desvinculado_sin_borrar ''Database error deleting user'',
        ej_mundo_activo\<lparr>estudiantes := [datosDesvinculacion ''tok-2'' ej_jane_activa]\<rparr>)"
    by (simp add: desvincular_defs ej_mundo_activo_def ej_jane_activa_def ej_jane_def)
  have datos: "''1'' \<noteq> []" "trim ''1'' \<noteq> []"
    "filter (\<lambda>a. ua_auth_user_id a = ''uid-admin'') (usuarios_administrativos ej_mundo_activo) = [ej_admin]"
    "ed_getUser ej_borrado_falla = Ninguno" "ed_admin ej_borrado_falla = Ninguno"
    "ed_estudiante ej_borrado_falla = Ninguno"
    "filter (ed_or ej_borrado_falla (filtro_or ''1'')) (estudiantes ej_mundo_activo) = [ej_jane_activa]"
    "filter (\<lambda>e. est_id e = est_id ej_jane_activa) (estudiantes ej_mundo_activo) = [ej_jane_activa]"
    "auth_user_id ej_jane_activa = Some ''uid-jane''" "''uid-jane'' \<noteq> []"
    "filter (\<lambda>e. onboarding_token e = Some (ed_randomUUID ej_borrado_falla)) (estudiantes ej_mundo_activo) = []"
    by (simp_all add: ej_mundo_activo_def ej_jane_activa_def ej_jane_def fila_nueva_def ej_admin_def
          ej_borrado_falla_def sin_incidentes_desvincular_def trim_def es_espacio_def
          or_por_comas_def condicion_def filtro_or_def)
  have mas: "ed_update ej_borrado_falla = Ninguno" "ed_deleteUser ej_borrado_falla \<noteq> Ninguno"
    "ed_randomUUID ej_borrado_falla = ''tok-2''"
    "\<not> falsy (nombre_completo_becado ej_jane_activa)" "\<not> falsy (correo_personal ej_jane_activa)"
    "o_bien (nombre_completo_becado ej_jane_activa) [] = ''Jane Doe''"
    "o_bien (correo_personal ej_jane_activa) [] = ''jane@example.com''"
    "auth_usuarios ej_mundo_activo
       = [\<lparr>au_id = ''uid-jane'', au_email = ''jane@example.com'', au_password = ''LongEnough1''\<rparr>]"
    by (simp_all add: ej_borrado_falla_def sin_incidentes_desvincular_def ej_jane_activa_def ej_jane_def
          fila_nueva_def falsy_def o_bien_def ej_mundo_activo_def)
  have v: "validarToken Ninguno ''tok-2''
        (ej_mundo_activo\<lparr>estudiantes := [datosDesvinculacion ''tok-2'' ej_jane_activa]\<rparr>)
       = Retorna \<lparr>success = True, message = [], estudiante_v = Some (''Jane Doe'', ''jane@example.com'')\<rparr>"
  proof -
    from desvincularCuentaEstudiante_orden_y_parcial
           [OF datos r, of ej_borrado_falla "Some ''uid-admin''" "''1''" ej_mundo_activo] mas(1)
    have "validarToken Ninguno (ed_randomUUID ej_borrado_falla)
            (ej_mundo_activo\<lparr>estudiantes := [datosDesvinculacion ''tok-2'' ej_jane_activa]\<rparr>) =
          Retorna (if falsy (nombre_completo_becado ej_jane_activa) \<or> falsy (correo_personal ej_jane_activa)
                   then faltan_datos
                   else \<lparr>success = True, message = [],
                          estudiante_v = Some (o_bien (nombre_completo_becado ej_jane_activa) [],
                                               o_bien (correo_personal ej_jane_activa) [])\<rparr>)"
      by blast
    then show ?thesis by (simp add: mas)
  qed
  show ?thesis
    using r v mas(8) by simp
qed

subsection \<open>Activation\<close>

text \<open>
  An activation leaves through a redirect only after its update answered without
  error, and that update leaves no row with the token.
\<close>

lemma validarToken_no_redirige: "validarToken inc token w \<noteq> Redirige url"
  by (simp add: validarToken_def split: respuesta.splits option.splits)

lemma validarToken_sin_fila:
  assumes "filter (\<lambda>e. onboarding_token e = Some token) (estudiantes w) = []"
  shows "validarToken inc token w = (case inc of Lanza m \<Rightarrow> Propaga m | _ \<Rightarrow> Retorna token_invalido)"
  using assms by (simp add: validarToken_def single_def split: incidente.splits)

lemma token_quemado:
  "filter (\<lambda>e. onboarding_token e = Some token)
     (map (\<lambda>e. if onboarding_token e = Some token
               then e\<lparr>auth_user_id := a, correo_personal := c, ha_completado_onboarding := True,
                      onboarding_token := None\<rparr>
               else e) xs) = []"
  by (induction xs) auto

lemma activarCuenta_paso3_mundo: "snd (activarCuenta_paso3 env user w) = w"
  by (simp add: activarCuenta_paso3_def split: incidente.splits respuesta.splits)

lemma activarCuenta_paso3_redirige: "\<exists>url. fst (activarCuenta_paso3 env user w) = Redirige url"
  by (simp add: activarCuenta_paso3_def split: incidente.splits respuesta.splits)

lemma activarCuenta_paso2_redirige:
  assumes "activarCuenta_paso2 env token email user w = (Redirige url, w1)"
  shows "filter (\<lambda>e. onboarding_token e = Some token) (estudiantes w1) = []"
proof (cases "ea_update env")
  case Ninguno
  with assms activarCuenta_paso3_mundo show ?thesis
    by (auto simp: activarCuenta_paso2_def update_donde_def token_quemado
          dest!: arg_cong [where f = snd])
next
  case (Devuelve e)
  with assms show ?thesis
    by (auto simp: activarCuenta_paso2_def update_donde_def error_inesperado_def
          split: if_splits prod.splits respuesta.splits)
next
  case (Lanza m)
  with assms show ?thesis
    by (simp add: activarCuenta_paso2_def update_donde_def)
qed

lemma activarCuenta_paso1_redirige:
  assumes "activarCuenta_paso1 env token email password w = (Redirige url, w1)"
  shows "filter (\<lambda>e. onboarding_token e = Some token) (estudiantes w1) = []"
  using assms
  by (cases "ea_createUser env")
     (auto simp: activarCuenta_paso1_def createUser_def dest: activarCuenta_paso2_redirige)

lemma activarCuenta_redirige:
  assumes "activarCuenta env token email password w = (Redirige url, w1)"
  shows "filter (\<lambda>e. onboarding_token e = Some token) (estudiantes w1) = []"
proof (cases "validarToken (ea_validarToken env) token w")
  case (Retorna v)
  with assms show ?thesis
    by (auto simp: activarCuenta_def split: if_splits list.splits dest: activarCuenta_paso1_redirige)
next
  case (Redirige u)
  with validarToken_no_redirige show ?thesis by blast
next
  case (Propaga m)
  with assms show ?thesis by (simp add: activarCuenta_def)
qed

lemma update_sin_filas:
  "filter P xs = [] \<Longrightarrow> map (\<lambda>e. if P e then f e else e) xs = xs"
  by (induction xs) (auto split: if_splits)

lemmas activar_defs =
  activarCuenta_def activarCuenta_paso1_def activarCuenta_paso2_def activarCuenta_paso3_def
  validarToken_def single_def passwordSchema_def createUser_def update_donde_def consulta_admin_def
  maybeSingle_def falsy_def o_bien_def es_mayuscula_def es_minuscula_def es_digito_def
  toLowerCase_def tiene_minuscula_def trim_def es_espacio_def sin_incidentes_activar_def

lemma ej_activacion_sola:
  "activarCuenta (sin_incidentes_activar ''uid-a'') ''tok-1'' ''a@example.com'' ''LongEnough1'' ej_mundo =
     (Redirige ''/dashboard'',
      ej_mundo
        \<lparr>estudiantes :=
           [ej_jane\<lparr>auth_user_id := Some ''uid-a'', correo_personal := Some ''a@example.com'',
                    ha_completado_onboarding := True, onboarding_token := None\<rparr>],
         auth_usuarios :=
           [\<lparr>au_id = ''uid-a'', au_email = ''a@example.com'', au_password = ''LongEnough1''\<rparr>]\<rparr>)"
  by (simp add: activar_defs ej_mundo_def ej_jane_def fila_nueva_def ej_admin_def)

text \<open>
  C2, as the claim states it, fails: the activation nulls \<open>onboarding_token\<close> in the
  update that sets \<open>ha_completado_onboarding\<close>, so the lookup by token finds no row and
  the validation answers ``Token invalido o no encontrado'', not ``Este token ya ha
  sido utilizado''.
\<close>

theorem validarToken_tras_activar_contraejemplo:
  "fst (activarCuenta (sin_incidentes_activar ''uid-a'') ''tok-1'' ''a@example.com'' ''LongEnough1'' ej_mundo)
     = Redirige ''/dashboard''
   \<and> validarToken Ninguno ''tok-1''
        (snd (activarCuenta (sin_incidentes_activar ''uid-a'') ''tok-1'' ''a@example.com'' ''LongEnough1'' ej_mundo))
     = Retorna token_invalido
   \<and> token_invalido \<noteq> token_utilizado"
  by (simp add: ej_activacion_sola)
     (simp add: validarToken_def single_def ej_mundo_def ej_jane_def fila_nueva_def
        token_invalido_def token_utilizado_def)

text \<open>
  C2, amended. After a call of \<open>activarCuenta\<close> with token \<open>T\<close> that ended in a
  redirect (the account was created), no row carries \<open>T\<close>, and \<open>validarToken T\<close> never
  answers valid: it returns ``Token invalido o no encontrado'' whenever its lookup
  resolves, with or without an error, and throws when the lookup throws.
\<close>

theorem validarToken_tras_activar:
  assumes "activarCuenta env token email password w = (Redirige url, w1)"
  shows "filter (\<lambda>e. onboarding_token e = Some token) (estudiantes w1) = []
       \<and> validarToken Ninguno token w1 = Retorna token_invalido
       \<and> validarToken (Devuelve e) token w1 = Retorna token_invalido
       \<and> validarToken (Lanza m) token w1 = Propaga m
       \<and> \<not> success token_invalido"
  using activarCuenta_redirige [OF assms] validarToken_sin_fila [of token w1]
  by (simp add: token_invalido_def)

theorem validarToken_tras_activar_witness:
  "validarToken Ninguno ''tok-1'' ej_mundo
     = Retorna \<lparr>success = True, message = [], estudiante_v = Some (''Jane Doe'', ''jane@example.com'')\<rparr>
   \<and> fst (activarCuenta (sin_incidentes_activar ''uid-a'') ''tok-1'' ''a@example.com'' ''LongEnough1'' ej_mundo)
     = Redirige ''/dashboard''
   \<and> validarToken Ninguno ''tok-1''
        (snd (activarCuenta (sin_incidentes_activar ''uid-a'') ''tok-1'' ''a@example.com'' ''LongEnough1'' ej_mundo))
     = Retorna token_invalido"
proof -
  have antes: "validarToken Ninguno ''tok-1'' ej_mundo
     = Retorna \<lparr>success = True, message = [], estudiante_v = Some (''Jane Doe'', ''jane@example.com'')\<rparr>"
    by (simp add: validarToken_def single_def falsy_def o_bien_def ej_mundo_def ej_jane_def fila_nueva_def)
  from validarToken_tras_activar [OF ej_activacion_sola] antes show ?thesis
    by (simp add: ej_activacion_sola)
qed

text \<open>
  C1. \<open>activarCuenta\<close> reads only the \<open>error\<close> of its conditional update. When the token
  validated, the password passed, and by the time of the update no row carries the
  token any more (another request burned it meanwhile), an update that answers without
  error matches zero rows and the call goes on as if it had burned the token: it ends
  in a redirect, not in a failure, no row is linked to the identity it created, and
  that identity stays in the credential store. The sibling actions on \<open>estudiantes\<close>
  chain \<open>.select()\<close> and treat an empty \<open>updateData\<close> as a failure.
\<close>

theorem activarCuenta_carrera_perdida:
  assumes "validarToken (ea_validarToken env) token w = Retorna v" and "success v"
    and "passwordSchema password = []"
    and "filter (\<lambda>e. onboarding_token e = Some token) (estudiantes (ea_interferencia env w)) = []"
    and "ea_createUser env = Ninguno" and "ea_update env = Ninguno"
  shows "(\<exists>url. fst (activarCuenta env token email password w) = Redirige url)
       \<and> estudiantes (snd (activarCuenta env token email password w))
           = estudiantes (ea_interferencia env w)
       \<and> auth_usuarios (snd (activarCuenta env token email password w))
           = auth_usuarios (ea_interferencia env w)
             @ [\<lparr>au_id = ea_nuevo_id env, au_email = toLowerCase (trim email), au_password = password\<rparr>]"
proof -
  let ?user = "\<lparr>au_id = ea_nuevo_id env, au_email = toLowerCase (trim email), au_password = password\<rparr>"
  let ?w = "(ea_interferencia env w)\<lparr>auth_usuarios := auth_usuarios (ea_interferencia env w) @ [?user]\<rparr>"
  note sin_cambio = update_sin_filas [OF assms(4)]
  have "activarCuenta env token email password w = activarCuenta_paso3 env ?user ?w"
    using assms sin_cambio
    by (simp add: activarCuenta_def activarCuenta_paso1_def activarCuenta_paso2_def createUser_def
          update_donde_def)
  with activarCuenta_paso3_mundo [of env ?user ?w] activarCuenta_paso3_redirige [of env ?user ?w]
  show ?thesis by simp
qed

theorem activarCuenta_carrera_perdida_witness:
  "fst (activarCuenta (sin_incidentes_activar ''uid-a'') ''tok-1'' ''a@example.com'' ''LongEnough1'' ej_mundo)
     = Redirige ''/dashboard''
   \<and> fst (activarCuenta ej_carrera ''tok-1'' ''b@example.com'' ''LongEnough1'' ej_mundo)
     = Redirige ''/dashboard''
   \<and> map auth_user_id (estudiantes (snd (activarCuenta ej_carrera ''tok-1'' ''b@example.com'' ''LongEnough1'' ej_mundo)))
     = [Some ''uid-a'']
   \<and> map au_id (auth_usuarios (snd (activarCuenta ej_carrera ''tok-1'' ''b@example.com'' ''LongEnough1'' ej_mundo)))
     = [''uid-a'', ''uid-b'']"
proof -
  have i: "ea_interferencia ej_carrera ej_mundo =
      ej_mundo
        \<lparr>estudiantes :=
           [ej_jane\<lparr>auth_user_id := Some ''uid-a'', correo_personal := Some ''a@example.com'',
                    ha_completado_onboarding := True, onboarding_token := None\<rparr>],
         auth_usuarios :=
           [\<lparr>au_id = ''uid-a'', au_email = ''a@example.com'', au_password = ''LongEnough1''\<rparr>]\<rparr>"
    by (simp add: ej_carrera_def ej_activacion_sola)
  have datos: "validarToken (ea_validarToken ej_carrera) ''tok-1'' ej_mundo
       = Retorna \<lparr>success = True, message = [], estudiante_v = Some (''Jane Doe'', ''jane@example.com'')\<rparr>"
    "success \<lparr>success = True, message = [], estudiante_v = Some (''Jane Doe'', ''jane@example.com'')\<rparr>"
    "passwordSchema ''LongEnough1'' = []"
    "filter (\<lambda>e. onboarding_token e = Some ''tok-1'') (estudiantes (ea_interferencia ej_carrera ej_mundo)) = []"
    "ea_createUser ej_carrera = Ninguno" "ea_update ej_carrera = Ninguno"
    by (simp_all add: i)
       (simp_all add: ej_carrera_def sin_incidentes_activar_def validarToken_def single_def falsy_def o_bien_def
          ej_mundo_def ej_jane_def fila_nueva_def passwordSchema_def es_mayuscula_def es_minuscula_def
          es_digito_def)
  have b: "fst (activarCuenta ej_carrera ''tok-1'' ''b@example.com'' ''LongEnough1'' ej_mundo) = Redirige ''/dashboard''"
    by (simp add: activar_defs ej_carrera_def ej_mundo_def ej_admin_def ej_jane_def fila_nueva_def)
  from activarCuenta_carrera_perdida [OF datos, of "''b@example.com''"] b show ?thesis
    by (simp add: i ej_activacion_sola)
       (simp add: ej_carrera_def sin_incidentes_activar_def ej_mundo_def ej_jane_def fila_nueva_def)
qed

end
